theory Spec2Isabelle
  imports Main "HOL-Library.Word"
begin

unbundle bit_operations_syntax

section \<open>Go values: strings, errors, panics\<close>

text \<open>
  A Go \<^verbatim>\<open>string\<close> is a sequence of bytes, and so is a HOL \<^typ>\<open>string\<close>;
  \<^verbatim>\<open>len(s)\<close> is \<^term>\<open>length s\<close> and counts bytes. A \<^verbatim>\<open>[]byte\<close> that is hashed is
  a list of 8-bit words.
\<close>

type_synonym byte = "8 word"
type_synonym u32 = "32 word"

text \<open>
  An \<^verbatim>\<open>error\<close> built by \<^verbatim>\<open>fmt.Errorf\<close>: a message, or a prefix wrapped around
  another error with \<^verbatim>\<open>%w\<close>. \<open>Error\<close> is the method \<^verbatim>\<open>Error()\<close>, which \<^verbatim>\<open>%v\<close>
  prints.
\<close>

datatype error = Errorf string | Wrapf string error

fun Error :: "error \<Rightarrow> string" where
  "Error (Errorf m) = m"
| "Error (Wrapf p e) = p @ Error e"

text \<open>A call either returns or panics; a panic is not an \<^verbatim>\<open>error\<close> value.\<close>

datatype 'a outcome = Return 'a | Panic string

text \<open>\<^verbatim>\<open>%d\<close> of a non-negative integer.\<close>

definition digit_char :: "nat \<Rightarrow> char" where
  "digit_char d = char_of (48 + d)"

fun itoa :: "nat \<Rightarrow> string" where
  "itoa n = (if n < 10 then [digit_char n] else itoa (n div 10) @ [digit_char (n mod 10)])"

declare itoa.simps [simp del]

text \<open>\<^verbatim>\<open>s[:n]\<close> panics when \<open>n\<close> exceeds \<^verbatim>\<open>len(s)\<close>.\<close>

definition slice_to :: "string \<Rightarrow> nat \<Rightarrow> string outcome" where
  "slice_to s n =
     (if n \<le> length s then Return (take n s)
      else Panic (''runtime error: slice bounds out of range [:'' @ itoa n
                    @ ''] with length '' @ itoa (length s)))"

text \<open>
  \<^verbatim>\<open>strings.SplitN(s, ".", 2)\<close>: the text before the first separator and the text
  after it, or \<open>s\<close> alone when it has no separator.
\<close>

definition SplitN2 :: "string \<Rightarrow> char \<Rightarrow> string list" where
  "SplitN2 s sep =
     (if sep \<in> set s
      then [takeWhile (\<lambda>c. c \<noteq> sep) s, tl (dropWhile (\<lambda>c. c \<noteq> sep) s)]
      else [s])"

text \<open>
  \<^verbatim>\<open>strings.ReplaceAll(s, old, new)\<close> for a non-empty \<open>old\<close>: non-overlapping
  occurrences, leftmost first. Every call of the program passes
  \<^verbatim>\<open>"{{." + key + "}}"\<close>, which is never empty; the empty pattern is left alone here.
\<close>

function ReplaceAll :: "string \<Rightarrow> string \<Rightarrow> string \<Rightarrow> string" where
  "ReplaceAll s old new =
     (if old = [] \<or> s = [] then s
      else if take (length old) s = old
           then new @ ReplaceAll (drop (length old) s) old new
           else hd s # ReplaceAll (tl s) old new)"
  by pat_completeness auto
termination
  by (relation "measure (\<lambda>(s, old, new). length s)") auto

declare ReplaceAll.simps [simp del]

text \<open>ASCII case mapping, as \<^verbatim>\<open>strings.ToLower\<close> and \<^verbatim>\<open>strings.ToUpper\<close> do on ASCII bytes.\<close>

definition is_ascii :: "char \<Rightarrow> bool" where
  "is_ascii c = ((of_char c :: nat) < 128)"

definition lower_byte :: "char \<Rightarrow> char" where
  "lower_byte c =
     (if (65::nat) \<le> of_char c \<and> (of_char c :: nat) \<le> 90
      then char_of ((of_char c :: nat) + 32) else c)"

definition upper_byte :: "char \<Rightarrow> char" where
  "upper_byte c =
     (if (97::nat) \<le> of_char c \<and> (of_char c :: nat) \<le> 122
      then char_of ((of_char c :: nat) - 32) else c)"

text \<open>The UTF-8 encoding of U+FFFD, \<^verbatim>\<open>utf8.RuneError\<close>.\<close>

definition RuneError :: string where
  "RuneError = [CHR 0xEF, CHR 0xBF, CHR 0xBD]"

text \<open>
  \<^verbatim>\<open>strings.ToLower\<close> applied to the one-byte string \<open>[c]\<close>, the only shape
  \<^verbatim>\<open>publisher[:1]\<close> has. An ASCII byte is mapped to lower case. A byte from 0x80 on is
  not valid UTF-8 by itself: the library goes through \<^verbatim>\<open>strings.Map(unicode.ToLower, s)\<close>,
  which decodes it as \<^verbatim>\<open>utf8.RuneError\<close> and writes that rune.
\<close>

definition ToLower_byte :: "char \<Rightarrow> string" where
  "ToLower_byte c = (if is_ascii c then [lower_byte c] else RuneError)"

text \<open>
  \<^verbatim>\<open>strings.ToUpper\<close> on an ASCII string (the program applies it to hexadecimal digits
  only; \<open>EncodeToString_ascii\<close> below shows that).
\<close>

definition ToUpper :: "string \<Rightarrow> string" where
  "ToUpper s = map upper_byte s"

text \<open>
  \<^verbatim>\<open>utf8.RuneCountInString\<close> on valid UTF-8: the number of characters is the number of
  bytes that are not continuation bytes (\<^verbatim>\<open>10xxxxxx\<close>).
\<close>

definition is_continuation :: "char \<Rightarrow> bool" where
  "is_continuation c = ((128::nat) \<le> of_char c \<and> (of_char c :: nat) < 192)"

definition RuneCount :: "string \<Rightarrow> nat" where
  "RuneCount s = length (filter (\<lambda>c. \<not> is_continuation c) s)"

section \<open>The hash engine: \<^verbatim>\<open>hash.go\<close>\<close>

subsection \<open>SHA-256 (\<^verbatim>\<open>crypto/sha256\<close>, FIPS 180-4)\<close>

definition rotr :: "nat \<Rightarrow> u32 \<Rightarrow> u32" where
  "rotr n x = drop_bit n x OR push_bit (32 - n) x"

definition Ch :: "u32 \<Rightarrow> u32 \<Rightarrow> u32 \<Rightarrow> u32" where
  "Ch x y z = (x AND y) XOR (NOT x AND z)"

definition Maj :: "u32 \<Rightarrow> u32 \<Rightarrow> u32 \<Rightarrow> u32" where
  "Maj x y z = (x AND y) XOR (x AND z) XOR (y AND z)"

definition bsig0 :: "u32 \<Rightarrow> u32" where
  "bsig0 x = rotr 2 x XOR rotr 13 x XOR rotr 22 x"

definition bsig1 :: "u32 \<Rightarrow> u32" where
  "bsig1 x = rotr 6 x XOR rotr 11 x XOR rotr 25 x"

definition ssig0 :: "u32 \<Rightarrow> u32" where
  "ssig0 x = rotr 7 x XOR rotr 18 x XOR drop_bit 3 x"

definition ssig1 :: "u32 \<Rightarrow> u32" where
  "ssig1 x = rotr 17 x XOR rotr 19 x XOR drop_bit 10 x"

definition K256 :: "u32 list" where
  "K256 =
   [0x428A2F98, 0x71374491, 0xB5C0FBCF, 0xE9B5DBA5, 0x3956C25B, 0x59F111F1, 0x923F82A4, 0xAB1C5ED5,
    0xD807AA98, 0x12835B01, 0x243185BE, 0x550C7DC3, 0x72BE5D74, 0x80DEB1FE, 0x9BDC06A7, 0xC19BF174,
    0xE49B69C1, 0xEFBE4786, 0x0FC19DC6, 0x240CA1CC, 0x2DE92C6F, 0x4A7484AA, 0x5CB0A9DC, 0x76F988DA,
    0x983E5152, 0xA831C66D, 0xB00327C8, 0xBF597FC7, 0xC6E00BF3, 0xD5A79147, 0x06CA6351, 0x14292967,
    0x27B70A85, 0x2E1B2138, 0x4D2C6DFC, 0x53380D13, 0x650A7354, 0x766A0ABB, 0x81C2C92E, 0x92722C85,
    0xA2BFE8A1, 0xA81A664B, 0xC24B8B70, 0xC76C51A3, 0xD192E819, 0xD6990624, 0xF40E3585, 0x106AA070,
    0x19A4C116, 0x1E376C08, 0x2748774C, 0x34B0BCB5, 0x391C0CB3, 0x4ED8AA4A, 0x5B9CCA4F, 0x682E6FF3,
    0x748F82EE, 0x78A5636F, 0x84C87814, 0x8CC70208, 0x90BEFFFA, 0xA4506CEB, 0xBEF9A3F7, 0xC67178F2]"

type_synonym digest_state = "u32 \<times> u32 \<times> u32 \<times> u32 \<times> u32 \<times> u32 \<times> u32 \<times> u32"

definition init256 :: digest_state where
  "init256 = (0x6A09E667, 0xBB67AE85, 0x3C6EF372, 0xA54FF53A,
              0x510E527F, 0x9B05688C, 0x1F83D9AB, 0x5BE0CD19)"

definition be64 :: "64 word \<Rightarrow> byte list" where
  "be64 w = map (\<lambda>i. ucast (drop_bit (8 * i) w)) [7, 6, 5, 4, 3, 2, 1, 0]"

definition be32 :: "u32 \<Rightarrow> byte list" where
  "be32 w = map (\<lambda>i. ucast (drop_bit (8 * i) w)) [3, 2, 1, 0]"

text \<open>
  Padding: the byte 0x80, zero bytes up to 56 modulo 64, and the length of the message in
  bits as a 64-bit big-endian number (the library keeps it in a \<^verbatim>\<open>uint64\<close>).
\<close>

definition pad256 :: "byte list \<Rightarrow> byte list" where
  "pad256 m = m @ [0x80] @ replicate ((119 - length m mod 64) mod 64) 0
                @ be64 (of_nat (8 * length m))"

fun words_of :: "byte list \<Rightarrow> u32 list" where
  "words_of (a # b # c # d # rest) =
     (push_bit 24 (ucast a) OR push_bit 16 (ucast b) OR push_bit 8 (ucast c) OR ucast d)
       # words_of rest"
| "words_of _ = []"

text \<open>The message schedule: 48 more words after the 16 of the block.\<close>

fun extend :: "nat \<Rightarrow> u32 list \<Rightarrow> u32 list" where
  "extend 0 w = w"
| "extend (Suc n) w =
     (let t = length w in
      extend n (w @ [ssig1 (w ! (t - 2)) + w ! (t - 7) + ssig0 (w ! (t - 15)) + w ! (t - 16)]))"

definition round256 :: "u32 \<times> u32 \<Rightarrow> digest_state \<Rightarrow> digest_state" where
  "round256 kw s =
     (case s of (a, b, c, d, e, f, g, h) \<Rightarrow>
        let t1 = h + bsig1 e + Ch e f g + fst kw + snd kw;
            t2 = bsig0 a + Maj a b c
        in (t1 + t2, a, b, c, d + t1, e, f, g))"

definition add_state :: "digest_state \<Rightarrow> digest_state \<Rightarrow> digest_state" where
  "add_state s t =
     (case s of (a, b, c, d, e, f, g, h) \<Rightarrow>
      case t of (a', b', c', d', e', f', g', h') \<Rightarrow>
        (a + a', b + b', c + c', d + d', e + e', f + f', g + g', h + h'))"

definition block256 :: "byte list \<Rightarrow> digest_state \<Rightarrow> digest_state" where
  "block256 blk s = add_state s (fold round256 (zip K256 (extend 48 (words_of blk))) s)"

definition blocks_of :: "byte list \<Rightarrow> byte list list" where
  "blocks_of bs = map (\<lambda>i. take 64 (drop (64 * i) bs)) [0 ..< length bs div 64]"

definition state_bytes :: "digest_state \<Rightarrow> byte list" where
  "state_bytes s =
     (case s of (a, b, c, d, e, f, g, h) \<Rightarrow>
        be32 a @ be32 b @ be32 c @ be32 d @ be32 e @ be32 f @ be32 g @ be32 h)"

text \<open>\<^verbatim>\<open>sha256.Sum256(data)\<close>; \<^verbatim>\<open>sha256.New()\<close> fed the same bytes sums to the same digest.\<close>

definition Sum256 :: "byte list \<Rightarrow> byte list" where
  "Sum256 m = state_bytes (fold block256 (blocks_of (pad256 m)) init256)"

subsection \<open>\<^verbatim>\<open>encoding/hex\<close>\<close>

definition hextable :: string where
  "hextable = ''0123456789abcdef''"

definition EncodeToString :: "byte list \<Rightarrow> string" where
  "EncodeToString bs =
     concat (map (\<lambda>b. [hextable ! unat (drop_bit 4 b), hextable ! unat (b AND 0x0f)]) bs)"

subsection \<open>\<^verbatim>\<open>CalculateHashFromBytes\<close>\<close>

definition CalculateHashFromBytes :: "byte list \<Rightarrow> string" where
  "CalculateHashFromBytes data = ToUpper (EncodeToString (Sum256 data))"

section \<open>The data model\<close>

subsection \<open>Configuration (\<^verbatim>\<open>plugin.go\<close>)\<close>

text \<open>
  A Go \<^verbatim>\<open>map[string]string\<close> is an association list with distinct keys; the order a
  \<^verbatim>\<open>range\<close> loop visits it in is chosen by the runtime (\<open>range_order\<close> below). The
  field names of two structs that share a name carry a prefix.
\<close>

record InstallerConfig =
  ic_URL :: string
  ic_Architecture :: string
  ic_Type :: string
  ic_Switches :: "(string \<times> string) list"
  ic_Scope :: string
  ic_ProductCode :: string

record MetadataConfig =
  Publisher :: string
  PublisherURL :: string
  PublisherSupportURL :: string
  Name :: string
  ShortDescription :: string
  License :: string
  LicenseURL :: string
  Copyright :: string
  PackageURL :: string
  Tags :: "string list"
  Moniker :: string
  ReleaseNotesURL :: string

record LocaleConfig =
  lc_Locale :: string
  lc_Description :: string

record PRConfig =
  ForkOwner :: string
  BaseBranch :: string
  Title :: string
  DeleteBranch :: bool

record Config =
  PackageID :: string
  GitHubToken :: string
  Installers :: "InstallerConfig list"
  Metadata :: MetadataConfig
  Locales :: "LocaleConfig list"
  PullRequest :: PRConfig
  ValidateFlag :: bool
  TestInstall :: bool
  DryRun :: bool

subsection \<open>Manifests (\<^verbatim>\<open>manifest.go\<close>)\<close>

definition ManifestVersion :: string where
  "ManifestVersion = ''1.6.0''"

record VersionManifest =
  V_PackageIdentifier :: string
  V_PackageVersion :: string
  V_DefaultLocale :: string
  V_ManifestType :: string
  V_ManifestVersion :: string

record Installer =
  Architecture :: string
  InstallerType :: string
  InstallerURL :: string
  InstallerSha256 :: string
  Scope :: string
  InstallerSwitches :: "(string \<times> string) list"
  ProductCode :: string

record InstallerManifest =
  I_PackageIdentifier :: string
  I_PackageVersion :: string
  I_Installers :: "Installer list"
  I_ManifestType :: string
  I_ManifestVersion :: string

record LocaleManifest =
  L_PackageIdentifier :: string
  L_PackageVersion :: string
  L_PackageLocale :: string
  L_Publisher :: string
  L_PublisherURL :: string
  L_PublisherSupportURL :: string
  L_PackageName :: string
  L_License :: string
  L_LicenseURL :: string
  L_Copyright :: string
  L_ShortDescription :: string
  L_Description :: string
  L_Moniker :: string
  L_Tags :: "string list"
  L_PackageURL :: string
  L_ReleaseNotesURL :: string
  L_ManifestType :: string
  L_ManifestVersion :: string

record ManifestSet =
  ms_Version :: VersionManifest
  ms_Installer :: InstallerManifest
  ms_Locale :: LocaleManifest
  ms_Path :: string

subsection \<open>The plugin interface (\<^verbatim>\<open>relicta-plugin-sdk\<close>)\<close>

text \<open>
  The untyped configuration \<^verbatim>\<open>map[string]any\<close>: the dynamic types the parser asks
  for, and \<open>AOther\<close> for every other one.
\<close>

datatype any = AString string | ABool bool | AList "any list" | AMap "(string \<times> any) list" | AOther

record ReleaseContext =
  rc_Version :: string

record ExecuteRequest =
  Hook :: string
  RawConfig :: "(string \<times> any) list"
  Context :: ReleaseContext
  ReqDryRun :: bool

record ExecuteResponse =
  Success :: bool
  Message :: string

record ValidateResponse =
  Valid :: bool
  Errors :: "(string \<times> string) list"

subsection \<open>HTTP\<close>

text \<open>
  A request body is the Go map handed to \<^verbatim>\<open>json.Marshal\<close>; \<open>Base64 s\<close> stands for
  \<^verbatim>\<open>base64.StdEncoding.EncodeToString([]byte(s))\<close>.
\<close>

datatype field = Text string | Base64 string

record request =
  Method :: string
  URL :: string
  Headers :: "(string \<times> string) list"
  ReqBody :: "(string \<times> field) list option"

record response =
  StatusCode :: nat
  Body :: string

text \<open>
  What one request of the download client meets: a transport error (the 10 minute
  timeout among them), a redirect response (301, 302, 303, 307 or 308 with a
  \<^verbatim>\<open>Location\<close> header, taken to hold the absolute URL given here), or any other
  response, with its status and what reading its body to the end gives.
\<close>

datatype hop = HopError error | HopRedirect nat string | HopResponse nat "error + byte list"

text \<open>What the program does to the outside, in order.\<close>

datatype event = Download string | Api request | Sleep nat

text \<open>
  Everything outside the repository. The network answers depend on what was done before
  (the events so far). The three \<open>yaml\<close> functions are \<^verbatim>\<open>yaml.Marshal\<close> on the three
  documents, \<open>json_field\<close> is \<^verbatim>\<open>json.NewDecoder(body).Decode\<close> into a struct with the
  one named field, \<open>NewRequest\<close> is the error of \<^verbatim>\<open>http.NewRequestWithContext\<close> for a
  method and a URL if it has one, \<open>http_do\<close> is \<^verbatim>\<open>client.Do\<close> of the API client (the
  library's own redirect handling included), \<open>fetch\<close> is one request of the download
  client, \<open>range_order\<close> is the order in which \<^verbatim>\<open>range\<close> visits a map, and
  \<open>HookPostPublish\<close>, \<open>GetString\<close> and \<open>GetBool\<close> are the SDK's hook constant and its
  \<^verbatim>\<open>ConfigParser\<close> (key, environment variable, default).
\<close>

record world =
  HookPostPublish :: string
  GetString :: "(string \<times> any) list \<Rightarrow> string \<Rightarrow> string \<Rightarrow> string \<Rightarrow> string"
  GetBool :: "(string \<times> any) list \<Rightarrow> string \<Rightarrow> bool \<Rightarrow> bool"
  NewRequest :: "string \<Rightarrow> string \<Rightarrow> error option"
  fetch :: "event list \<Rightarrow> string \<Rightarrow> hop"
  http_do :: "event list \<Rightarrow> request \<Rightarrow> error + response"
  json_field :: "string \<Rightarrow> string \<Rightarrow> error + string"
  yaml_version :: "VersionManifest \<Rightarrow> error + string"
  yaml_installer :: "InstallerManifest \<Rightarrow> error + string"
  yaml_locale :: "LocaleManifest \<Rightarrow> error + string"
  range_order :: "(string \<times> string) list \<Rightarrow> (string \<times> string) list"

section \<open>The manifest compiler: \<^verbatim>\<open>manifest.go\<close>\<close>

text \<open>
  The loop over \<^verbatim>\<open>cfg.Locales\<close>: the description of the first entry whose locale is
  \<^verbatim>\<open>en-US\<close>, and the zero value without one.
\<close>

fun enUS_description :: "LocaleConfig list \<Rightarrow> string" where
  "enUS_description [] = []"
| "enUS_description (l # ls) =
     (if lc_Locale l = ''en-US'' then lc_Description l else enUS_description ls)"

definition GenerateManifests ::
  "Config \<Rightarrow> string \<Rightarrow> Installer list \<Rightarrow> (error + ManifestSet) outcome" where
  "GenerateManifests cfg version installers =
     (let parts = SplitN2 (PackageID cfg) CHR ''.'' in
      if length parts \<noteq> 2
      then Return (Inl (Errorf (''invalid package ID format: '' @ PackageID cfg)))
      else
        let publisher = parts ! 0;
            versionManifest =
              \<lparr>V_PackageIdentifier = PackageID cfg,
               V_PackageVersion = version,
               V_DefaultLocale = ''en-US'',
               V_ManifestType = ''version'',
               V_ManifestVersion = ManifestVersion\<rparr>;
            installerManifest =
              \<lparr>I_PackageIdentifier = PackageID cfg,
               I_PackageVersion = version,
               I_Installers = installers,
               I_ManifestType = ''installer'',
               I_ManifestVersion = ManifestVersion\<rparr>;
            localeManifest =
              \<lparr>L_PackageIdentifier = PackageID cfg,
               L_PackageVersion = version,
               L_PackageLocale = ''en-US'',
               L_Publisher = Publisher (Metadata cfg),
               L_PublisherURL = PublisherURL (Metadata cfg),
               L_PublisherSupportURL = PublisherSupportURL (Metadata cfg),
               L_PackageName = Name (Metadata cfg),
               L_License = License (Metadata cfg),
               L_LicenseURL = LicenseURL (Metadata cfg),
               L_Copyright = Copyright (Metadata cfg),
               L_ShortDescription = ShortDescription (Metadata cfg),
               L_Description = enUS_description (Locales cfg),
               L_Moniker = Moniker (Metadata cfg),
               L_Tags = Tags (Metadata cfg),
               L_PackageURL = PackageURL (Metadata cfg),
               L_ReleaseNotesURL = ReleaseNotesURL (Metadata cfg),
               L_ManifestType = ''defaultLocale'',
               L_ManifestVersion = ManifestVersion\<rparr>
        in (case slice_to publisher 1 of
             Panic p \<Rightarrow> Panic p
           | Return first \<Rightarrow>
              (let firstLetter = ToLower_byte (hd first);
                   path = ''manifests/'' @ firstLetter @ ''/'' @ PackageID cfg @ ''/'' @ version
               in Return (Inr \<lparr>ms_Version = versionManifest,
                                ms_Installer = installerManifest,
                                ms_Locale = localeManifest,
                                ms_Path = path\<rparr>))))"

definition VersionYAML :: "world \<Rightarrow> ManifestSet \<Rightarrow> error + string" where
  "VersionYAML w m = yaml_version w (ms_Version m)"

definition InstallerYAML :: "world \<Rightarrow> ManifestSet \<Rightarrow> error + string" where
  "InstallerYAML w m = yaml_installer w (ms_Installer m)"

definition LocaleYAML :: "world \<Rightarrow> ManifestSet \<Rightarrow> error + string" where
  "LocaleYAML w m = yaml_locale w (ms_Locale m)"

definition addYAMLHeader :: "string \<Rightarrow> string" where
  "addYAMLHeader content =
     (''# Created using Relicta'' @ [CHR 0x0A]
      @ ''# yaml-language-server: $schema=https://aka.ms/winget-manifest.version.1.6.0.schema.json''
      @ [CHR 0x0A, CHR 0x0A]) @ content"

text \<open>\<^verbatim>\<open>files[k] = v\<close> on a Go map: the entry of an old key is replaced.\<close>

fun put :: "string \<Rightarrow> string \<Rightarrow> (string \<times> string) list \<Rightarrow> (string \<times> string) list" where
  "put k v [] = [(k, v)]"
| "put k v (e # es) = (if fst e = k then (k, v) # es else e # put k v es)"

definition GetFiles :: "world \<Rightarrow> ManifestSet \<Rightarrow> error + (string \<times> string) list" where
  "GetFiles w m =
     (case VersionYAML w m of
        Inl err \<Rightarrow> Inl (Wrapf ''failed to generate version manifest: '' err)
      | Inr versionYAML \<Rightarrow>
         (let files1 = put (ms_Path m @ ''/'' @ V_PackageIdentifier (ms_Version m) @ ''.yaml'')
                           (addYAMLHeader versionYAML) []
          in (case InstallerYAML w m of
               Inl err \<Rightarrow> Inl (Wrapf ''failed to generate installer manifest: '' err)
             | Inr installerYAML \<Rightarrow>
                (let files2 = put (ms_Path m @ ''/'' @ I_PackageIdentifier (ms_Installer m)
                                     @ ''.installer.yaml'')
                                  (addYAMLHeader installerYAML) files1
                 in (case LocaleYAML w m of
                      Inl err \<Rightarrow> Inl (Wrapf ''failed to generate locale manifest: '' err)
                    | Inr localeYAML \<Rightarrow>
                        Inr (put (ms_Path m @ ''/'' @ L_PackageIdentifier (ms_Locale m)
                                    @ ''.locale.en-US.yaml'')
                                 (addYAMLHeader localeYAML) files2))))))"

section \<open>The hash engine, over the network: \<^verbatim>\<open>hash.go\<close>\<close>

text \<open>The \<^verbatim>\<open>CheckRedirect\<close> policy of the download client.\<close>

definition CheckRedirect :: "string \<Rightarrow> string list \<Rightarrow> error option" where
  "CheckRedirect req via =
     (if length via \<ge> 10 then Some (Errorf ''too many redirects'') else None)"

text \<open>
  The \<^verbatim>\<open>url.Error\<close> that \<^verbatim>\<open>client.Do\<close> puts around the error of the policy:
  \<^verbatim>\<open>Get "<location>": <err>\<close>, with the \<^verbatim>\<open>Location\<close> of the redirect that was
  refused (for a URL that \<^verbatim>\<open>%q\<close> leaves as it is).
\<close>

definition url_Error :: "string \<Rightarrow> error \<Rightarrow> error" where
  "url_Error u e = Wrapf (''Get '' @ [CHR 0x22] @ u @ [CHR 0x22] @ '': '') e"

text \<open>
  \<^verbatim>\<open>client.Do(req)\<close> of \<^verbatim>\<open>net/http\<close> with this policy. \<open>via\<close> holds the requests made
  already, oldest first. Before every request but the first the client asks the policy,
  with the upcoming request and \<open>via\<close>; when the policy refuses, \<^verbatim>\<open>Do\<close> returns its
  error and sends nothing more. A redirect response leads to the next request; any other
  response is the result.
\<close>

function clientDo ::
  "world \<Rightarrow> event list \<Rightarrow> string list \<Rightarrow> string
     \<Rightarrow> (error + nat \<times> (error + byte list)) \<times> event list" where
  "clientDo w tr via url =
     (case (if via = [] then None else CheckRedirect url via) of
        Some err \<Rightarrow> (Inl (url_Error url err), tr)
      | None \<Rightarrow>
          (case fetch w tr url of
             HopError err \<Rightarrow> (Inl err, tr @ [Download url])
           | HopRedirect st loc \<Rightarrow> clientDo w (tr @ [Download url]) (via @ [url]) loc
           | HopResponse st body \<Rightarrow> (Inr (st, body), tr @ [Download url])))"
  by pat_completeness auto
termination
  by (relation "measure (\<lambda>(w, tr, via, url). 10 - length via)")
     (auto simp: CheckRedirect_def split: if_splits)

declare clientDo.simps [simp del]

definition CalculateInstallerHash ::
  "world \<Rightarrow> event list \<Rightarrow> string \<Rightarrow> (error + string) \<times> event list" where
  "CalculateInstallerHash w tr url =
     (case NewRequest w ''GET'' url of
        Some err \<Rightarrow> (Inl (Wrapf ''failed to create request: '' err), tr)
      | None \<Rightarrow>
          (case clientDo w tr [] url of
             (Inl err, tr') \<Rightarrow> (Inl (Wrapf ''failed to download installer: '' err), tr')
           | (Inr (status, body), tr') \<Rightarrow>
              (if status \<noteq> 200
               then (Inl (Errorf (''download failed with status '' @ itoa status)), tr')
               else (case body of
                       Inl err \<Rightarrow> (Inl (Wrapf ''failed to calculate hash: '' err), tr')
                     | Inr bytes \<Rightarrow> (Inr (ToUpper (EncodeToString (Sum256 bytes))), tr')))))"

text \<open>
  A resource reached through \<open>n\<close> redirects: starting at \<open>url\<close>, the server answers
  \<open>n\<close> requests in a row with a redirect. The result is the URL the last redirect
  points to and the events so far.
\<close>

fun after_redirects ::
  "world \<Rightarrow> event list \<Rightarrow> string \<Rightarrow> nat \<Rightarrow> (string \<times> event list) option" where
  "after_redirects w tr url 0 = Some (url, tr)"
| "after_redirects w tr url (Suc n) =
     (case fetch w tr url of
        HopRedirect st loc \<Rightarrow> after_redirects w (tr @ [Download url]) loc n
      | _ \<Rightarrow> None)"

section \<open>The repository client: \<^verbatim>\<open>github.go\<close>\<close>

definition wingetPkgsOwner :: string where
  "wingetPkgsOwner = ''microsoft''"

definition wingetPkgsRepo :: string where
  "wingetPkgsRepo = ''winget-pkgs''"

definition githubAPIBase :: string where
  "githubAPIBase = ''https://api.github.com''"

record GitHubClient =
  token :: string
  forkOwner :: string

definition NewGitHubClient :: "string \<Rightarrow> string \<Rightarrow> GitHubClient" where
  "NewGitHubClient tok owner = \<lparr>token = tok, forkOwner = owner\<rparr>"

text \<open>A request as \<^verbatim>\<open>http.NewRequestWithContext\<close> makes it, before the headers are set.\<close>

definition mk_request :: "string \<Rightarrow> string \<Rightarrow> (string \<times> field) list option \<Rightarrow> request" where
  "mk_request m u b = \<lparr>Method = m, URL = u, Headers = [], ReqBody = b\<rparr>"

text \<open>The headers \<open>doRequestRaw\<close> sets before it sends a request.\<close>

definition with_headers :: "GitHubClient \<Rightarrow> request \<Rightarrow> request" where
  "with_headers g req =
     req\<lparr>Headers :=
           [(''Authorization'', ''Bearer '' @ token g),
            (''Accept'', ''application/vnd.github+json''),
            (''X-GitHub-Api-Version'', ''2022-11-28'')]
           @ (if ReqBody req \<noteq> None then [(''Content-Type'', ''application/json'')]
              else [])\<rparr>"

definition doRequestRaw ::
  "GitHubClient \<Rightarrow> world \<Rightarrow> event list \<Rightarrow> request \<Rightarrow> (error + response) \<times> event list" where
  "doRequestRaw g w tr req =
     (let req' = with_headers g req
      in (http_do w tr req', tr @ [Api req']))"

text \<open>\<^verbatim>\<open>doRequest(req, &result)\<close>, where \<open>result\<close> is a struct with the one field \<open>fld\<close>.\<close>

definition doRequest ::
  "GitHubClient \<Rightarrow> world \<Rightarrow> event list \<Rightarrow> request \<Rightarrow> string
     \<Rightarrow> (error + string) \<times> event list" where
  "doRequest g w tr req fld =
     (case doRequestRaw g w tr req of
        (Inl err, tr') \<Rightarrow> (Inl err, tr')
      | (Inr resp, tr') \<Rightarrow>
          (if StatusCode resp \<ge> 400
           then (Inl (Errorf (''API error '' @ itoa (StatusCode resp) @ '': '' @ Body resp)), tr')
           else (case json_field w fld (Body resp) of
                   Inl err \<Rightarrow> (Inl (Wrapf ''failed to decode response: '' err), tr')
                 | Inr v \<Rightarrow> (Inr v, tr'))))"

text \<open>The URL of \<open>getCurrentUser\<close> and of \<open>createFork\<close> is a constant that parses.\<close>

definition getCurrentUser ::
  "GitHubClient \<Rightarrow> world \<Rightarrow> event list \<Rightarrow> (error + string) \<times> event list" where
  "getCurrentUser g w tr =
     doRequest g w tr (mk_request ''GET'' (githubAPIBase @ ''/user'') None) ''login''"

definition forkExists ::
  "GitHubClient \<Rightarrow> world \<Rightarrow> event list \<Rightarrow> string \<Rightarrow> (error + bool) \<times> event list" where
  "forkExists g w tr owner =
     (let url = githubAPIBase @ ''/repos/'' @ owner @ ''/'' @ wingetPkgsRepo in
      case NewRequest w ''GET'' url of
        Some err \<Rightarrow> (Inl err, tr)
      | None \<Rightarrow>
          (case doRequestRaw g w tr (mk_request ''GET'' url None) of
             (Inl err, tr') \<Rightarrow> (Inl err, tr')
           | (Inr resp, tr') \<Rightarrow> (Inr (StatusCode resp = 200), tr')))"

definition createFork ::
  "GitHubClient \<Rightarrow> world \<Rightarrow> event list \<Rightarrow> error option \<times> event list" where
  "createFork g w tr =
     (let url = githubAPIBase @ ''/repos/'' @ wingetPkgsOwner @ ''/'' @ wingetPkgsRepo @ ''/forks'' in
      case doRequestRaw g w tr (mk_request ''POST'' url None) of
        (Inl err, tr') \<Rightarrow> (Some err, tr')
      | (Inr resp, tr') \<Rightarrow>
          (if StatusCode resp \<noteq> 202 \<and> StatusCode resp \<noteq> 200
           then (Some (Errorf (''failed to create fork: '' @ Body resp)), tr')
           else (None, tr')))"

definition EnsureFork ::
  "GitHubClient \<Rightarrow> world \<Rightarrow> event list \<Rightarrow> (error + string) \<times> event list" where
  "EnsureFork g w tr =
     (if forkOwner g \<noteq> [] then (Inr (forkOwner g), tr)
      else
        (case getCurrentUser g w tr of
           (Inl err, tr1) \<Rightarrow> (Inl (Wrapf ''failed to get current user: '' err), tr1)
         | (Inr user, tr1) \<Rightarrow>
             (case forkExists g w tr1 user of
                (Inl err, tr2) \<Rightarrow> (Inl (Wrapf ''failed to check fork: '' err), tr2)
              | (Inr exists, tr2) \<Rightarrow>
                  (if exists then (Inr user, tr2)
                   else
                     (case createFork g w tr2 of
                        (Some err, tr3) \<Rightarrow> (Inl (Wrapf ''failed to create fork: '' err), tr3)
                      | (None, tr3) \<Rightarrow> (Inr user, tr3 @ [Sleep 5]))))))"

text \<open>The requests of \<open>EnsureFork\<close> as the server sees them.\<close>

definition probe_request :: "GitHubClient \<Rightarrow> string \<Rightarrow> request" where
  "probe_request g owner =
     with_headers g
       (mk_request ''GET'' (githubAPIBase @ ''/repos/'' @ owner @ ''/'' @ wingetPkgsRepo) None)"

definition fork_request :: "GitHubClient \<Rightarrow> request" where
  "fork_request g =
     with_headers g
       (mk_request ''POST''
          (githubAPIBase @ ''/repos/'' @ wingetPkgsOwner @ ''/'' @ wingetPkgsRepo @ ''/forks'')
          None)"

definition getBranchSHA ::
  "GitHubClient \<Rightarrow> world \<Rightarrow> event list \<Rightarrow> string \<Rightarrow> string \<Rightarrow> string
     \<Rightarrow> (error + string) \<times> event list" where
  "getBranchSHA g w tr owner repo branch =
     (let url = githubAPIBase @ ''/repos/'' @ owner @ ''/'' @ repo @ ''/git/ref/heads/'' @ branch in
      case NewRequest w ''GET'' url of
        Some err \<Rightarrow> (Inl err, tr)
      | None \<Rightarrow> doRequest g w tr (mk_request ''GET'' url None) ''object.sha'')"

definition createBranch ::
  "GitHubClient \<Rightarrow> world \<Rightarrow> event list \<Rightarrow> string \<Rightarrow> string \<Rightarrow> string
     \<Rightarrow> error option \<times> event list" where
  "createBranch g w tr owner branch sha =
     (let url = githubAPIBase @ ''/repos/'' @ owner @ ''/'' @ wingetPkgsRepo @ ''/git/refs'';
          body = [(''ref'', Text (''refs/heads/'' @ branch)), (''sha'', Text sha)] in
      case NewRequest w ''POST'' url of
        Some err \<Rightarrow> (Some err, tr)
      | None \<Rightarrow>
          (case doRequestRaw g w tr (mk_request ''POST'' url (Some body)) of
             (Inl err, tr') \<Rightarrow> (Some err, tr')
           | (Inr resp, tr') \<Rightarrow>
               (if StatusCode resp \<noteq> 201
                then (Some (Errorf (''failed to create branch: '' @ Body resp)), tr')
                else (None, tr'))))"

text \<open>The loop of \<open>commitFiles\<close>, over the files in the order \<^verbatim>\<open>range\<close> gives them.\<close>

fun commitFiles ::
  "GitHubClient \<Rightarrow> world \<Rightarrow> event list \<Rightarrow> string \<Rightarrow> string \<Rightarrow> (string \<times> string) list
     \<Rightarrow> string \<Rightarrow> error option \<times> event list" where
  "commitFiles g w tr owner branch [] message = (None, tr)"
| "commitFiles g w tr owner branch ((path, content) # files) message =
     (let url = githubAPIBase @ ''/repos/'' @ owner @ ''/'' @ wingetPkgsRepo
                  @ ''/contents/'' @ path;
          body = [(''message'', Text message), (''content'', Base64 content),
                  (''branch'', Text branch)] in
      case NewRequest w ''PUT'' url of
        Some err \<Rightarrow> (Some err, tr)
      | None \<Rightarrow>
          (case doRequestRaw g w tr (mk_request ''PUT'' url (Some body)) of
             (Inl err, tr') \<Rightarrow> (Some err, tr')
           | (Inr resp, tr') \<Rightarrow>
               (if StatusCode resp \<noteq> 201 \<and> StatusCode resp \<noteq> 200
                then (Some (Errorf (''failed to create file '' @ path @ '': status ''
                                      @ itoa (StatusCode resp))), tr')
                else commitFiles g w tr' owner branch files message)))"

definition createPullRequest ::
  "GitHubClient \<Rightarrow> world \<Rightarrow> event list \<Rightarrow> string \<Rightarrow> string \<Rightarrow> string \<Rightarrow> string
     \<Rightarrow> (error + string) \<times> event list" where
  "createPullRequest g w tr owner branch baseBranch title =
     (let url = githubAPIBase @ ''/repos/'' @ wingetPkgsOwner @ ''/'' @ wingetPkgsRepo @ ''/pulls'';
          body = [(''title'', Text title), (''head'', Text (owner @ '':'' @ branch)),
                  (''base'', Text baseBranch),
                  (''body'', Text ''This PR was automatically created by Relicta.'')] in
      doRequest g w tr (mk_request ''POST'' url (Some body)) ''html_url'')"

text \<open>\<open>renderTemplate\<close> of \<^verbatim>\<open>plugin.go\<close>; \<open>data\<close> is the map in the order \<^verbatim>\<open>range\<close> visits it.\<close>

definition renderTemplate :: "string \<Rightarrow> (string \<times> string) list \<Rightarrow> string" where
  "renderTemplate tmpl data =
     fold (\<lambda>kv result. ReplaceAll result (''{{.'' @ fst kv @ ''}}'') (snd kv)) data tmpl"

definition CreatePR ::
  "GitHubClient \<Rightarrow> world \<Rightarrow> event list \<Rightarrow> ManifestSet \<Rightarrow> PRConfig
     \<Rightarrow> (error + string) \<times> event list" where
  "CreatePR g w tr manifests cfg =
     (let ident = V_PackageIdentifier (ms_Version manifests);
          ver = V_PackageVersion (ms_Version manifests) in
      case (if forkOwner g = [] then getCurrentUser g w tr else (Inr (forkOwner g), tr)) of
        (Inl err, tr0) \<Rightarrow> (Inl err, tr0)
      | (Inr owner, tr0) \<Rightarrow>
         (case getBranchSHA g w tr0 wingetPkgsOwner wingetPkgsRepo (BaseBranch cfg) of
            (Inl err, tr1) \<Rightarrow> (Inl (Wrapf ''failed to get base branch SHA: '' err), tr1)
          | (Inr baseSHA, tr1) \<Rightarrow>
             (let branchName = ''winget/'' @ ReplaceAll ident ''.'' ''-'' @ ''/'' @ ver in
              case createBranch g w tr1 owner branchName baseSHA of
                (Some err, tr2) \<Rightarrow> (Inl (Wrapf ''failed to create branch: '' err), tr2)
              | (None, tr2) \<Rightarrow>
                 (case GetFiles w manifests of
                    Inl err \<Rightarrow> (Inl (Wrapf ''failed to get manifest files: '' err), tr2)
                  | Inr files \<Rightarrow>
                     (let commitMessage = ''New version: '' @ ident @ '' version '' @ ver in
                      case commitFiles g w tr2 owner branchName (range_order w files)
                             commitMessage of
                        (Some err, tr3) \<Rightarrow> (Inl (Wrapf ''failed to commit files: '' err), tr3)
                      | (None, tr3) \<Rightarrow>
                         (let prTitle = renderTemplate (Title cfg)
                                (range_order w [(''PackageId'', ident), (''Version'', ver)]) in
                          case createPullRequest g w tr3 owner branchName (BaseBranch cfg)
                                 prTitle of
                            (Inl err, tr4) \<Rightarrow> (Inl (Wrapf ''failed to create PR: '' err), tr4)
                          | (Inr prURL, tr4) \<Rightarrow> (Inr prURL, tr4)))))))"

section \<open>The plugin: \<^verbatim>\<open>plugin.go\<close>\<close>

text \<open>
  Output to the logger is not modelled; nothing the program returns or sends depends on
  it. In a dry run the three documents are rendered for the log only.
\<close>

definition placeholder_hash :: string where
  "placeholder_hash = ''0000000000000000000000000000000000000000000000000000000000000000''"

text \<open>
  The loop of \<open>executePostPublish\<close> over \<^verbatim>\<open>cfg.Installers\<close>: \<open>i\<close> is the index,
  \<open>installers\<close> the slice built so far. The first failure ends the run with its response.
\<close>

fun hashInstallers ::
  "world \<Rightarrow> Config \<Rightarrow> string \<Rightarrow> event list \<Rightarrow> nat \<Rightarrow> InstallerConfig list \<Rightarrow> Installer list
     \<Rightarrow> (ExecuteResponse + Installer list) \<times> event list" where
  "hashInstallers w cfg version tr i [] installers = (Inr installers, tr)"
| "hashInstallers w cfg version tr i (installerCfg # rest) installers =
     (let url = renderTemplate (ic_URL installerCfg) [(''Version'', version)] in
      case (if DryRun cfg then (Inr placeholder_hash, tr)
            else CalculateInstallerHash w tr url) of
        (Inl err, tr') \<Rightarrow>
          (Inl \<lparr>Success = False,
                Message = ''Failed to calculate hash for installer '' @ itoa i @ '': ''
                            @ Error err\<rparr>, tr')
      | (Inr hash, tr') \<Rightarrow>
          (let installer =
                 \<lparr>Architecture = ic_Architecture installerCfg,
                  InstallerType = ic_Type installerCfg,
                  InstallerURL = url,
                  InstallerSha256 = hash,
                  Scope = ic_Scope installerCfg,
                  InstallerSwitches =
                    (if length (ic_Switches installerCfg) > 0 then ic_Switches installerCfg
                     else []),
                  ProductCode = ic_ProductCode installerCfg\<rparr>
           in hashInstallers w cfg version tr' (Suc i) rest (installers @ [installer])))"

text \<open>
  \<open>executePostPublish\<close> returns a response and a \<^verbatim>\<open>nil\<close> error, or panics where
  \<open>GenerateManifests\<close> does.
\<close>

definition executePostPublish ::
  "world \<Rightarrow> event list \<Rightarrow> ReleaseContext \<Rightarrow> Config
     \<Rightarrow> (ExecuteResponse \<times> error option) outcome \<times> event list" where
  "executePostPublish w tr releaseCtx cfg =
     (let version = rc_Version releaseCtx in
      case hashInstallers w cfg version tr 0 (Installers cfg) [] of
        (Inl failed, tr1) \<Rightarrow> (Return (failed, None), tr1)
      | (Inr installers, tr1) \<Rightarrow>
         (case GenerateManifests cfg version installers of
            Panic p \<Rightarrow> (Panic p, tr1)
          | Return (Inl err) \<Rightarrow>
              (Return (\<lparr>Success = False,
                        Message = ''Failed to generate manifests: '' @ Error err\<rparr>, None), tr1)
          | Return (Inr manifests) \<Rightarrow>
             (if DryRun cfg
              then (Return (\<lparr>Success = True,
                             Message = ''[DRY-RUN] Would create PR for '' @ PackageID cfg
                                         @ '' version '' @ version\<rparr>, None), tr1)
              else
                (let ghClient = NewGitHubClient (GitHubToken cfg) (ForkOwner (PullRequest cfg)) in
                 case EnsureFork ghClient w tr1 of
                   (Inl err, tr2) \<Rightarrow>
                     (Return (\<lparr>Success = False,
                               Message = ''Failed to ensure fork: '' @ Error err\<rparr>, None), tr2)
                 | (Inr owner, tr2) \<Rightarrow>
                    (case CreatePR ghClient w tr2 manifests (PullRequest cfg) of
                       (Inl err, tr3) \<Rightarrow>
                         (Return (\<lparr>Success = False,
                                   Message = ''Failed to create PR: '' @ Error err\<rparr>, None), tr3)
                     | (Inr prURL, tr3) \<Rightarrow>
                         (Return (\<lparr>Success = True,
                                   Message = ''Created PR for '' @ PackageID cfg @ '' version ''
                                               @ version @ '': '' @ prURL\<rparr>, None), tr3))))))"

subsection \<open>\<open>parseConfig\<close>\<close>

text \<open>
  \<^verbatim>\<open>if v, ok := m[key].(string); ok { x = v }\<close>: the value when the key holds a
  string, and what \<open>x\<close> was before otherwise.
\<close>

definition str_or :: "(string \<times> any) list \<Rightarrow> string \<Rightarrow> string \<Rightarrow> string" where
  "str_or m key dflt = (case map_of m key of Some (AString v) \<Rightarrow> v | _ \<Rightarrow> dflt)"

definition bool_or :: "(string \<times> any) list \<Rightarrow> string \<Rightarrow> bool \<Rightarrow> bool" where
  "bool_or m key dflt = (case map_of m key of Some (ABool v) \<Rightarrow> v | _ \<Rightarrow> dflt)"

text \<open>The entries of a map, or the elements of a list, that are strings.\<close>

fun string_entries :: "(string \<times> any) list \<Rightarrow> (string \<times> string) list" where
  "string_entries [] = []"
| "string_entries ((k, AString v) # rest) = (k, v) # string_entries rest"
| "string_entries (_ # rest) = string_entries rest"

fun string_items :: "any list \<Rightarrow> string list" where
  "string_items [] = []"
| "string_items (AString v # rest) = v # string_items rest"
| "string_items (_ # rest) = string_items rest"

definition parseInstallerItem :: "(string \<times> any) list \<Rightarrow> InstallerConfig" where
  "parseInstallerItem m =
     \<lparr>ic_URL = str_or m ''url'' [],
      ic_Architecture = str_or m ''architecture'' [],
      ic_Type = str_or m ''type'' [],
      ic_Switches = (case map_of m ''switches'' of
                       Some (AMap switches) \<Rightarrow> string_entries switches
                     | _ \<Rightarrow> []),
      ic_Scope = str_or m ''scope'' [],
      ic_ProductCode = str_or m ''product_code'' []\<rparr>"

fun parseInstallerItems :: "any list \<Rightarrow> InstallerConfig list" where
  "parseInstallerItems [] = []"
| "parseInstallerItems (AMap m # rest) = parseInstallerItem m # parseInstallerItems rest"
| "parseInstallerItems (_ # rest) = parseInstallerItems rest"

definition parseMetadata :: "(string \<times> any) list \<Rightarrow> MetadataConfig" where
  "parseMetadata raw =
     (case map_of raw ''metadata'' of
        Some (AMap metaRaw) \<Rightarrow>
          \<lparr>Publisher = str_or metaRaw ''publisher'' [],
           PublisherURL = str_or metaRaw ''publisher_url'' [],
           PublisherSupportURL = str_or metaRaw ''publisher_support_url'' [],
           Name = str_or metaRaw ''name'' [],
           ShortDescription = str_or metaRaw ''short_description'' [],
           License = str_or metaRaw ''license'' [],
           LicenseURL = str_or metaRaw ''license_url'' [],
           Copyright = str_or metaRaw ''copyright'' [],
           PackageURL = str_or metaRaw ''package_url'' [],
           Tags = (case map_of metaRaw ''tags'' of
                     Some (AList tags) \<Rightarrow> string_items tags
                   | _ \<Rightarrow> []),
           Moniker = str_or metaRaw ''moniker'' [],
           ReleaseNotesURL = str_or metaRaw ''release_notes_url'' []\<rparr>
      | _ \<Rightarrow>
          \<lparr>Publisher = [], PublisherURL = [], PublisherSupportURL = [], Name = [],
           ShortDescription = [], License = [], LicenseURL = [], Copyright = [],
           PackageURL = [], Tags = [], Moniker = [], ReleaseNotesURL = []\<rparr>)"

fun parseLocaleItems :: "any list \<Rightarrow> LocaleConfig list" where
  "parseLocaleItems [] = []"
| "parseLocaleItems (AMap m # rest) =
     \<lparr>lc_Locale = str_or m ''locale'' [], lc_Description = str_or m ''description'' []\<rparr>
       # parseLocaleItems rest"
| "parseLocaleItems (_ # rest) = parseLocaleItems rest"

definition parsePRConfig :: "(string \<times> any) list \<Rightarrow> PRConfig" where
  "parsePRConfig raw =
     (let prConfig = \<lparr>ForkOwner = [], BaseBranch = ''master'',
                       Title = ''New version: {{.PackageId}} version {{.Version}}'',
                       DeleteBranch = True\<rparr> in
      case map_of raw ''pull_request'' of
        Some (AMap prRaw) \<Rightarrow>
          \<lparr>ForkOwner = str_or prRaw ''fork_owner'' (ForkOwner prConfig),
           BaseBranch = str_or prRaw ''base_branch'' (BaseBranch prConfig),
           Title = str_or prRaw ''title'' (Title prConfig),
           DeleteBranch = bool_or prRaw ''delete_branch'' (DeleteBranch prConfig)\<rparr>
      | _ \<Rightarrow> prConfig)"

definition parseConfig :: "world \<Rightarrow> (string \<times> any) list \<Rightarrow> Config" where
  "parseConfig w raw =
     \<lparr>PackageID = GetString w raw ''package_id'' [] [],
      GitHubToken = GetString w raw ''github_token'' ''GITHUB_TOKEN'' [],
      Installers = (case map_of raw ''installers'' of
                      Some (AList installersRaw) \<Rightarrow> parseInstallerItems installersRaw
                    | _ \<Rightarrow> []),
      Metadata = parseMetadata raw,
      Locales = (case map_of raw ''locales'' of
                   Some (AList localesRaw) \<Rightarrow> parseLocaleItems localesRaw
                 | _ \<Rightarrow> []),
      PullRequest = parsePRConfig raw,
      ValidateFlag = GetBool w raw ''validate'' True,
      TestInstall = GetBool w raw ''test_install'' False,
      DryRun = GetBool w raw ''dry_run'' False\<rparr>"

subsection \<open>\<open>Validate\<close> and \<open>Execute\<close>\<close>

definition isValidPackageID :: "string \<Rightarrow> bool" where
  "isValidPackageID ident =
     (if ident = [] then False
      else (let parts = SplitN2 ident CHR ''.'' in
            if length parts \<noteq> 2 then False
            else parts ! 0 \<noteq> [] \<and> parts ! 1 \<noteq> []))"

definition isValidArchitecture :: "string \<Rightarrow> bool" where
  "isValidArchitecture arch = (arch \<in> set [''x86'', ''x64'', ''arm'', ''arm64''])"

text \<open>The loop of \<open>Validate\<close> over the installers, from index \<open>i\<close> on.\<close>

fun installerErrors :: "nat \<Rightarrow> InstallerConfig list \<Rightarrow> (string \<times> string) list" where
  "installerErrors i [] = []"
| "installerErrors i (installer # rest) =
     (if ic_URL installer = []
      then [(''installers['' @ itoa i @ ''].url'', ''Installer URL is required'')] else [])
     @ (if \<not> isValidArchitecture (ic_Architecture installer)
        then [(''installers['' @ itoa i @ ''].architecture'',
               ''Architecture must be x86, x64, arm, or arm64'')] else [])
     @ installerErrors (Suc i) rest"

text \<open>
  \<open>Validate\<close>: the \<^verbatim>\<open>ValidationBuilder\<close> of the SDK collects the errors in the order
  they are added, and \<^verbatim>\<open>Build\<close> reports the configuration valid when there are none.
  The error returned beside the response is always \<^verbatim>\<open>nil\<close>.
\<close>

definition Validate :: "world \<Rightarrow> (string \<times> any) list \<Rightarrow> ValidateResponse \<times> error option" where
  "Validate w config =
     (let cfg = parseConfig w config;
          errs =
            (if \<not> isValidPackageID (PackageID cfg)
             then [(''package_id'', ''Package ID must be in format Publisher.PackageName'')]
             else [])
            @ (if GitHubToken cfg = []
               then [(''github_token'', ''GitHub token is required'')] else [])
            @ (if length (Installers cfg) = 0
               then [(''installers'', ''At least one installer is required'')] else [])
            @ installerErrors 0 (Installers cfg)
            @ (if Publisher (Metadata cfg) = []
               then [(''metadata.publisher'', ''Publisher is required'')] else [])
            @ (if Name (Metadata cfg) = []
               then [(''metadata.name'', ''Package name is required'')] else [])
            @ (if ShortDescription (Metadata cfg) = []
               then [(''metadata.short_description'', ''Short description is required'')]
               else if length (ShortDescription (Metadata cfg)) > 256
               then [(''metadata.short_description'',
                      ''Short description must be <= 256 characters'')]
               else [])
            @ (if License (Metadata cfg) = []
               then [(''metadata.license'', ''License is required'')] else [])
      in (\<lparr>Valid = (errs = []), Errors = errs\<rparr>, None))"

definition Execute ::
  "world \<Rightarrow> event list \<Rightarrow> ExecuteRequest
     \<Rightarrow> (ExecuteResponse \<times> error option) outcome \<times> event list" where
  "Execute w tr req =
     (let cfg0 = parseConfig w (RawConfig req);
          cfg = cfg0\<lparr>DryRun := DryRun cfg0 \<or> ReqDryRun req\<rparr> in
      if Hook req = HookPostPublish w
      then executePostPublish w tr (Context req) cfg
      else (Return (\<lparr>Success = True,
                      Message = ''Hook '' @ Hook req @ '' not handled by winget plugin''\<rparr>,
                    None), tr))"

section \<open>Sample inputs\<close>

text \<open>The configuration of \<^verbatim>\<open>TestGenerateManifests\<close>, with one installer.\<close>

definition test_config :: Config where
  "test_config =
     \<lparr>PackageID = ''MyOrg.MyApp'',
      GitHubToken = ''test-token'',
      Installers =
        [\<lparr>ic_URL = ''https://example.com/myapp-{{.Version}}-x64.msi'',
          ic_Architecture = ''x64'', ic_Type = ''msi'', ic_Switches = [],
          ic_Scope = ''machine'', ic_ProductCode = []\<rparr>],
      Metadata =
        \<lparr>Publisher = ''My Organization'', PublisherURL = ''https://myorg.com'',
         PublisherSupportURL = [], Name = ''My Application'',
         ShortDescription = ''A useful application'', License = ''MIT'',
         LicenseURL = ''https://github.com/myorg/myapp/LICENSE'', Copyright = [],
         PackageURL = [], Tags = [''utility'', ''productivity''], Moniker = ''myapp'',
         ReleaseNotesURL = []\<rparr>,
      Locales = [\<lparr>lc_Locale = ''en-US'',
                  lc_Description = ''A full description of the application''\<rparr>],
      PullRequest = \<lparr>ForkOwner = [], BaseBranch = ''master'',
                      Title = ''New version: {{.PackageId}} version {{.Version}}'',
                      DeleteBranch = True\<rparr>,
      ValidateFlag = True, TestInstall = False, DryRun = False\<rparr>"

text \<open>
  A world for examples, given the download server and the API server: every URL is
  well-formed, the parser reads the configuration map only, the decoder hands back the
  body as the field, and the three documents render to fixed texts.
\<close>

definition test_world ::
  "(event list \<Rightarrow> string \<Rightarrow> hop) \<Rightarrow> (event list \<Rightarrow> request \<Rightarrow> error + response) \<Rightarrow> world" where
  "test_world server api =
     \<lparr>HookPostPublish = ''PostPublish'',
      GetString = (\<lambda>raw key env dflt. str_or raw key dflt),
      GetBool = (\<lambda>raw key dflt. bool_or raw key dflt),
      NewRequest = (\<lambda>m u. None),
      fetch = server,
      http_do = api,
      json_field = (\<lambda>fld body. Inr body),
      yaml_version = (\<lambda>d. Inr ''version''),
      yaml_installer = (\<lambda>d. Inr ''installer''),
      yaml_locale = (\<lambda>d. Inr ''locale''),
      range_order = (\<lambda>m. m)\<rparr>"

text \<open>A download server that redirects \<open>n\<close> times and then serves \<open>st\<close> with no content.\<close>

definition redirecting :: "nat \<Rightarrow> nat \<Rightarrow> event list \<Rightarrow> string \<Rightarrow> hop" where
  "redirecting n st tr url =
     (if length tr < n then HopRedirect 302 (''hop'' @ itoa (Suc (length tr)))
      else HopResponse st (Inr []))"

text \<open>
  An API server: the identity is \<open>octocat\<close>, the fork probe answers \<open>probe\<close> and the
  creation of the fork answers \<open>created\<close>.
\<close>

definition fork_api :: "nat \<Rightarrow> nat \<Rightarrow> event list \<Rightarrow> request \<Rightarrow> error + response" where
  "fork_api probe created tr req =
     (if URL req = ''https://api.github.com/user''
      then Inr \<lparr>StatusCode = 200, Body = ''octocat''\<rparr>
      else if Method req = ''GET''
      then Inr \<lparr>StatusCode = probe, Body = []\<rparr>
      else Inr \<lparr>StatusCode = created, Body = ''no''\<rparr>)"

definition no_server :: "event list \<Rightarrow> string \<Rightarrow> hop" where
  "no_server tr url = HopError (Errorf ''no such host'')"

section \<open>Properties of the manifest compiler\<close>

lemma SplitN2_length: "length (SplitN2 s sep) = (if sep \<in> set s then 2 else 1)"
  by (simp add: SplitN2_def)

lemma GenerateManifests_Inr_fields:
  assumes "GenerateManifests cfg version installers = Return (Inr ms)"
  shows "V_PackageIdentifier (ms_Version ms) = PackageID cfg"
    and "V_PackageVersion (ms_Version ms) = version"
    and "I_PackageIdentifier (ms_Installer ms) = PackageID cfg"
    and "I_PackageVersion (ms_Installer ms) = version"
    and "I_Installers (ms_Installer ms) = installers"
    and "L_PackageIdentifier (ms_Locale ms) = PackageID cfg"
    and "L_PackageVersion (ms_Locale ms) = version"
  using assms
  by (auto simp: GenerateManifests_def Let_def split: if_splits outcome.splits)

lemma GenerateManifests_test_config:
  "\<exists>ms. GenerateManifests test_config ''1.0.0'' [] = Return (Inr ms)"
  by (simp add: GenerateManifests_def test_config_def SplitN2_def slice_to_def Let_def)

lemma GenerateManifests_test_config_dry:
  "\<exists>ms. GenerateManifests (test_config\<lparr>DryRun := d\<rparr>) v ins = Return (Inr ms)"
  by (simp add: GenerateManifests_def test_config_def SplitN2_def slice_to_def Let_def)

lemma SplitN2_segments:
  assumes "CHR ''.'' \<notin> set ns"
  shows "SplitN2 (ns @ ''.'' @ name) CHR ''.'' = [ns, name]"
proof -
  have all: "\<forall>x\<in>set ns. x \<noteq> CHR ''.''"
    using assms by auto
  have "takeWhile (\<lambda>c. c \<noteq> CHR ''.'') (ns @ CHR ''.'' # name) = ns"
    using all by (induction ns) auto
  moreover have "dropWhile (\<lambda>c. c \<noteq> CHR ''.'') (ns @ CHR ''.'' # name) = CHR ''.'' # name"
    using all by (induction ns) auto
  ultimately show ?thesis by (simp add: SplitN2_def)
qed

lemma GenerateManifests_path:
  assumes "PackageID cfg = ns @ ''.'' @ name" and "CHR ''.'' \<notin> set ns" and "ns \<noteq> []"
  shows "\<exists>ms. GenerateManifests cfg version installers = Return (Inr ms)
            \<and> ms_Path ms = ''manifests/'' @ ToLower_byte (hd ns) @ ''/'' @ PackageID cfg
                              @ ''/'' @ version"
  using assms SplitN2_segments [OF assms(2), of name]
  by (cases ns) (simp_all add: GenerateManifests_def Let_def slice_to_def)

lemma GetFiles_entries:
  assumes "yaml_version w (ms_Version m) = Inr vy"
      and "yaml_installer w (ms_Installer m) = Inr iy"
      and "yaml_locale w (ms_Locale m) = Inr ly"
      and "V_PackageIdentifier (ms_Version m) = ident"
      and "I_PackageIdentifier (ms_Installer m) = ident"
      and "L_PackageIdentifier (ms_Locale m) = ident"
  shows "GetFiles w m =
           Inr [(ms_Path m @ ''/'' @ ident @ ''.yaml'', addYAMLHeader vy),
                (ms_Path m @ ''/'' @ ident @ ''.installer.yaml'', addYAMLHeader iy),
                (ms_Path m @ ''/'' @ ident @ ''.locale.en-US.yaml'', addYAMLHeader ly)]"
  using assms
  by (simp add: GetFiles_def VersionYAML_def InstallerYAML_def LocaleYAML_def Let_def)

text \<open>
  C4. Whenever \<open>GenerateManifests\<close> succeeds, the version, installer and locale documents
  all carry the configured package identifier as \<^verbatim>\<open>PackageIdentifier\<close> and the given
  release version as \<^verbatim>\<open>PackageVersion\<close>.
\<close>

theorem GenerateManifests_documents_agree:
  assumes "GenerateManifests cfg version installers = Return (Inr ms)"
  shows "V_PackageIdentifier (ms_Version ms) = PackageID cfg
       \<and> I_PackageIdentifier (ms_Installer ms) = PackageID cfg
       \<and> L_PackageIdentifier (ms_Locale ms) = PackageID cfg
       \<and> V_PackageVersion (ms_Version ms) = version
       \<and> I_PackageVersion (ms_Installer ms) = version
       \<and> L_PackageVersion (ms_Locale ms) = version"
  using GenerateManifests_Inr_fields [OF assms] by simp

theorem GenerateManifests_documents_agree_witness:
  "\<exists>ms. GenerateManifests test_config ''1.0.0'' [] = Return (Inr ms)
       \<and> V_PackageIdentifier (ms_Version ms) = ''MyOrg.MyApp''
       \<and> I_PackageIdentifier (ms_Installer ms) = ''MyOrg.MyApp''
       \<and> L_PackageIdentifier (ms_Locale ms) = ''MyOrg.MyApp''
       \<and> V_PackageVersion (ms_Version ms) = ''1.0.0''
       \<and> I_PackageVersion (ms_Installer ms) = ''1.0.0''
       \<and> L_PackageVersion (ms_Locale ms) = ''1.0.0''"
proof -
  obtain ms where ok: "GenerateManifests test_config ''1.0.0'' [] = Return (Inr ms)"
    using GenerateManifests_test_config by blast
  have "PackageID test_config = ''MyOrg.MyApp''"
    by (simp add: test_config_def)
  with GenerateManifests_documents_agree [OF ok] ok show ?thesis
    by auto
qed

lemma itoa_small: "itoa 0 = ''0''" "itoa (Suc 0) = ''1''"
  by code_simp+

text \<open>
  C1. \<open>GenerateManifests\<close> returns the invalid-identifier error exactly when the
  identifier has no separator. An identifier with an empty segment, which
  \<open>isValidPackageID\<close> rejects, is not refused: with nothing before the separator the call
  panics on \<^verbatim>\<open>publisher[:1]\<close>, and with nothing after it the call succeeds.
\<close>

theorem GenerateManifests_empty_segment:
  "GenerateManifests (cfg\<lparr>PackageID := ''.Package''\<rparr>) version installers
     = Panic ''runtime error: slice bounds out of range [:1] with length 0''
   \<and> (\<exists>ms. GenerateManifests (cfg\<lparr>PackageID := ''Publisher.''\<rparr>) version installers
          = Return (Inr ms))
   \<and> \<not> isValidPackageID ''.Package'' \<and> \<not> isValidPackageID ''Publisher.''
   \<and> GenerateManifests (cfg\<lparr>PackageID := ''InvalidPackageID''\<rparr>) version installers
       = Return (Inl (Errorf ''invalid package ID format: InvalidPackageID''))"
  by (simp add: GenerateManifests_def isValidPackageID_def SplitN2_def slice_to_def Let_def
        itoa_small)

text \<open>
  Beside C1: the identifier error is returned exactly for an identifier without a
  separator, and it names the identifier.
\<close>

theorem GenerateManifests_identifier_error:
  "(CHR ''.'' \<notin> set (PackageID cfg) \<longrightarrow>
      GenerateManifests cfg version installers
        = Return (Inl (Errorf (''invalid package ID format: '' @ PackageID cfg))))
   \<and> (CHR ''.'' \<in> set (PackageID cfg) \<longrightarrow>
        (\<forall>err. GenerateManifests cfg version installers \<noteq> Return (Inl err)))"
  by (auto simp: GenerateManifests_def Let_def SplitN2_length split: outcome.splits)

theorem GenerateManifests_identifier_error_witness:
  "GenerateManifests (test_config\<lparr>PackageID := ''InvalidPackageID''\<rparr>) ''1.0.0'' []
     = Return (Inl (Errorf ''invalid package ID format: InvalidPackageID''))
   \<and> GenerateManifests test_config ''1.0.0'' []
       \<noteq> Return (Inl (Errorf ''invalid package ID format: MyOrg.MyApp''))"
  using GenerateManifests_identifier_error
          [of "test_config\<lparr>PackageID := ''InvalidPackageID''\<rparr>" "''1.0.0''" "[]"]
        GenerateManifests_identifier_error [of test_config "''1.0.0''" "[]"]
  by (simp add: test_config_def)

text \<open>
  C3. The directory letter is \<^verbatim>\<open>strings.ToLower(publisher[:1])\<close>: the first byte of the
  namespace, not its first character. Take the identifier made of a capital E with an
  acute accent (the two bytes C3 89 in UTF-8) and \<^verbatim>\<open>cole.App\<close>, which
  \<open>isValidPackageID\<close> accepts. Its path is \<^verbatim>\<open>manifests/<EF BF BD>/...\<close>, with the
  replacement character U+FFFD where the claim has the lower-case first character (the
  bytes C3 A9).
\<close>

theorem GenerateManifests_non_ascii_namespace:
  "\<exists>ms. GenerateManifests (cfg\<lparr>PackageID := [CHR 0xC3, CHR 0x89] @ ''cole.App''\<rparr>) ''1.0.0''
           installers = Return (Inr ms)
       \<and> ms_Path ms = ''manifests/'' @ [CHR 0xEF, CHR 0xBF, CHR 0xBD] @ ''/''
                        @ [CHR 0xC3, CHR 0x89] @ ''cole.App/1.0.0''
       \<and> ms_Path ms \<noteq> ''manifests/'' @ [CHR 0xC3, CHR 0xA9] @ ''/''
                        @ [CHR 0xC3, CHR 0x89] @ ''cole.App/1.0.0''
       \<and> isValidPackageID ([CHR 0xC3, CHR 0x89] @ ''cole.App'')"
  by (simp add: GenerateManifests_def isValidPackageID_def SplitN2_def slice_to_def Let_def
        ToLower_byte_def is_ascii_def RuneError_def)

text \<open>
  Beside C3: for an identifier \<open>ns.name\<close> whose namespace starts with an ASCII byte, the
  path is \<^verbatim>\<open>manifests/<lower-case first byte>/<identifier>/<version>\<close>, and when the three
  documents render, \<open>GetFiles\<close> returns exactly the three entries
  \<^verbatim>\<open><path>/<identifier>.yaml\<close>, \<^verbatim>\<open><path>/<identifier>.installer.yaml\<close> and
  \<^verbatim>\<open><path>/<identifier>.locale.en-US.yaml\<close>, each content being the two-line header
  comment, an empty line and the rendered document.
\<close>

theorem GetFiles_three_entries:
  assumes "PackageID cfg = ns @ ''.'' @ name" and "CHR ''.'' \<notin> set ns" and "ns \<noteq> []"
      and "is_ascii (hd ns)"
      and "GenerateManifests cfg version installers = Return (Inr ms)"
      and "yaml_version w (ms_Version ms) = Inr vy"
      and "yaml_installer w (ms_Installer ms) = Inr iy"
      and "yaml_locale w (ms_Locale ms) = Inr ly"
  shows "ms_Path ms = ''manifests/'' @ [lower_byte (hd ns)] @ ''/'' @ PackageID cfg @ ''/'' @ version
       \<and> GetFiles w ms =
           Inr [(ms_Path ms @ ''/'' @ PackageID cfg @ ''.yaml'', addYAMLHeader vy),
                (ms_Path ms @ ''/'' @ PackageID cfg @ ''.installer.yaml'', addYAMLHeader iy),
                (ms_Path ms @ ''/'' @ PackageID cfg @ ''.locale.en-US.yaml'', addYAMLHeader ly)]
       \<and> addYAMLHeader content =
           ''# Created using Relicta'' @ [CHR 0x0A]
           @ ''# yaml-language-server: $schema=https://aka.ms/winget-manifest.version.1.6.0.schema.json''
           @ [CHR 0x0A, CHR 0x0A] @ content"
proof -
  from GenerateManifests_path [OF assms(1-3), of version installers] assms(4,5)
  have p: "ms_Path ms = ''manifests/'' @ [lower_byte (hd ns)] @ ''/'' @ PackageID cfg @ ''/'' @ version"
    by (auto simp: ToLower_byte_def)
  have "GetFiles w ms =
           Inr [(ms_Path ms @ ''/'' @ PackageID cfg @ ''.yaml'', addYAMLHeader vy),
                (ms_Path ms @ ''/'' @ PackageID cfg @ ''.installer.yaml'', addYAMLHeader iy),
                (ms_Path ms @ ''/'' @ PackageID cfg @ ''.locale.en-US.yaml'', addYAMLHeader ly)]"
    by (rule GetFiles_entries [OF assms(6-8) GenerateManifests_Inr_fields(1,3,6) [OF assms(5)]])
  with p show ?thesis by (simp add: addYAMLHeader_def)
qed

theorem GetFiles_three_entries_witness:
  "\<exists>ms. GenerateManifests test_config ''1.0.0'' [] = Return (Inr ms)
       \<and> ms_Path ms = ''manifests/m/MyOrg.MyApp/1.0.0''
       \<and> map fst (projr (GetFiles (test_world no_server (fork_api 200 202)) ms))
           = [''manifests/m/MyOrg.MyApp/1.0.0/MyOrg.MyApp.yaml'',
              ''manifests/m/MyOrg.MyApp/1.0.0/MyOrg.MyApp.installer.yaml'',
              ''manifests/m/MyOrg.MyApp/1.0.0/MyOrg.MyApp.locale.en-US.yaml'']"
proof -
  obtain ms where ok: "GenerateManifests test_config ''1.0.0'' [] = Return (Inr ms)"
    using GenerateManifests_test_config by blast
  let ?w = "test_world no_server (fork_api 200 202)"
  have id: "PackageID test_config = ''MyOrg'' @ ''.'' @ ''MyApp''"
    by (simp add: test_config_def)
  have nd: "CHR ''.'' \<notin> set ''MyOrg''" "''MyOrg'' \<noteq> []" "is_ascii (hd ''MyOrg'')"
    by (simp_all add: is_ascii_def)
  have y: "yaml_version ?w (ms_Version ms) = Inr ''version''"
          "yaml_installer ?w (ms_Installer ms) = Inr ''installer''"
          "yaml_locale ?w (ms_Locale ms) = Inr ''locale''"
    by (simp_all add: test_world_def)
  have l: "lower_byte (hd ''MyOrg'') = CHR ''m''"
    by code_simp
  from GetFiles_three_entries [OF id nd ok y] l id
  show ?thesis using ok by auto
qed

section \<open>Properties of the hash engine\<close>






lemma hi_nibble: "unat (drop_bit 4 (b :: byte)) < 16"
proof -
  have "unat b < 256" using unsigned_less [of b] by simp
  moreover have "unat (drop_bit 4 b) = unat b div 16"
    by (simp add: drop_bit_eq_div unat_div)
  ultimately show ?thesis by arith
qed

lemma lo_nibble: "unat ((b :: byte) AND 0x0f) < 16"
proof -
  have "unat (b AND 15) \<le> unat (15 :: byte)"
    by (rule word_and_le1 [THEN word_le_nat_alt [THEN iffD1]])
  then show ?thesis by simp
qed


text \<open>\<open>ToUpper\<close> is applied to ASCII only.\<close>

lemma hextable_ascii: "list_all is_ascii hextable"
  by code_simp

lemma EncodeToString_ascii: "c \<in> set (EncodeToString bs) \<Longrightarrow> is_ascii c"
proof (induction bs)
  case Nil
  then show ?case by (simp add: EncodeToString_def)
next
  case (Cons b bs)
  have "is_ascii (hextable ! unat (drop_bit 4 b))" "is_ascii (hextable ! unat (b AND 0x0f))"
    using hextable_ascii hi_nibble [of b] lo_nibble [of b]
    by (simp_all add: list_all_length hextable_def)
  with Cons show ?case by (auto simp: EncodeToString_def)
qed




subsection \<open>Redirects and the final status\<close>

lemma clientDo_follow:
  "after_redirects w tr url n = Some (final, trn) \<Longrightarrow> length via + n \<le> 10 \<Longrightarrow>
   \<exists>via'. length via' = length via + n \<and> clientDo w tr via url = clientDo w trn via' final"
proof (induction n arbitrary: tr url via)
  case 0
  then show ?case by auto
next
  case (Suc n)
  from Suc.prems(1) obtain st loc where
    hop: "fetch w tr url = HopRedirect st loc"
    and rest: "after_redirects w (tr @ [Download url]) loc n = Some (final, trn)"
    by (auto split: hop.splits)
  from Suc.prems(2) have short: "length via < 10" by simp
  have step: "clientDo w tr via url = clientDo w (tr @ [Download url]) (via @ [url]) loc"
    using hop short by (subst clientDo.simps) (simp add: CheckRedirect_def)
  from Suc.IH [OF rest, of "via @ [url]"] Suc.prems(2)
  obtain via' where "length via' = length (via @ [url]) + n"
    and "clientDo w (tr @ [Download url]) (via @ [url]) loc = clientDo w trn via' final"
    by auto
  with step show ?case by auto
qed

lemma after_redirects_length:
  "after_redirects w tr url n = Some (final, trn) \<Longrightarrow> length trn = length tr + n"
  by (induction n arbitrary: tr url) (auto split: hop.splits)

lemma clientDo_final:
  assumes "after_redirects w tr url n = Some (final, trn)" and "n \<le> 9"
      and "fetch w trn final = HopResponse st body"
  shows "clientDo w tr [] url = (Inr (st, body), trn @ [Download final])"
proof -
  from clientDo_follow [OF assms(1), of "[]"] assms(2)
  obtain via' where v: "length via' = n" "clientDo w tr [] url = clientDo w trn via' final"
    by auto
  have "clientDo w trn via' final = (Inr (st, body), trn @ [Download final])"
    using v(1) assms(2,3) by (subst clientDo.simps) (simp add: CheckRedirect_def)
  with v(2) show ?thesis by simp
qed

lemma clientDo_too_many:
  assumes "after_redirects w tr url 10 = Some (final, trn)"
  shows "clientDo w tr [] url = (Inl (url_Error final (Errorf ''too many redirects'')), trn)"
proof -
  from clientDo_follow [OF assms, of "[]"]
  obtain via' where v: "length via' = 10" "clientDo w tr [] url = clientDo w trn via' final"
    by auto
  have "via' \<noteq> []" using v(1) by auto
  then have "clientDo w trn via' final
               = (Inl (url_Error final (Errorf ''too many redirects'')), trn)"
    using v(1) by (subst clientDo.simps) (simp add: CheckRedirect_def)
  with v(2) show ?thesis by simp
qed

text \<open>
  C7. Where the download client ends with a response, \<open>CalculateInstallerHash\<close> fails on
  its status exactly when the status is not 200, with an error that carries the status;
  with status 200 the status check lets the call go on, to the digest of the body or to
  the error of reading it. (The check is \<^verbatim>\<open>resp.StatusCode != http.StatusOK\<close>: the other
  statuses of the 2xx range are errors too.)
\<close>

theorem CalculateInstallerHash_status:
  assumes "NewRequest w ''GET'' url = None"
      and "clientDo w tr [] url = (Inr (st, body), tr')"
  shows "(st \<noteq> 200 \<longrightarrow>
            CalculateInstallerHash w tr url
              = (Inl (Errorf (''download failed with status '' @ itoa st)), tr'))
       \<and> (st = 200 \<longrightarrow>
            CalculateInstallerHash w tr url
              = (case body of
                   Inl err \<Rightarrow> (Inl (Wrapf ''failed to calculate hash: '' err), tr')
                 | Inr bytes \<Rightarrow> (Inr (CalculateHashFromBytes bytes), tr')))"
  using assms
  by (auto simp: CalculateInstallerHash_def CalculateHashFromBytes_def split: sum.splits)

theorem CalculateInstallerHash_status_witness:
  "CalculateInstallerHash (test_world (redirecting 0 404) (fork_api 200 202)) [] ''u''
     = (Inl (Errorf ''download failed with status 404''), [Download ''u''])
   \<and> CalculateInstallerHash (test_world (redirecting 0 200) (fork_api 200 202)) [] ''u''
     = (Inr (CalculateHashFromBytes []), [Download ''u''])"
proof -
  let ?w = "\<lambda>st. test_world (redirecting 0 st) (fork_api 200 202)"
  have a: "NewRequest (?w st) ''GET'' ''u'' = None" for st
    by (simp add: test_world_def)
  have b: "clientDo (?w st) [] [] ''u'' = (Inr (st, Inr []), [Download ''u''])" for st
    by (subst clientDo.simps) (simp add: test_world_def redirecting_def)
  have c: "itoa 404 = ''404''"
    by code_simp
  from CalculateInstallerHash_status [OF a b, of 404]
       CalculateInstallerHash_status [OF a b, of 200] c
  show ?thesis by simp
qed

text \<open>The claim as stated fails for a final status 204, which is in the 2xx range.\<close>

theorem CalculateInstallerHash_204_counterexample:
  "clientDo (test_world (redirecting 0 204) (fork_api 200 202)) [] [] ''u''
     = (Inr (204, Inr []), [Download ''u''])
   \<and> (200::nat) \<le> 204 \<and> (204::nat) < 300
   \<and> CalculateInstallerHash (test_world (redirecting 0 204) (fork_api 200 202)) [] ''u''
     = (Inl (Errorf ''download failed with status 204''), [Download ''u''])"
proof -
  have "clientDo (test_world (redirecting 0 204) (fork_api 200 202)) [] [] ''u''
     = (Inr (204, Inr []), [Download ''u''])"
    by (subst clientDo.simps) (simp add: test_world_def redirecting_def)
  moreover have "CalculateInstallerHash (test_world (redirecting 0 204) (fork_api 200 202)) [] ''u''
     = (Inl (Errorf ''download failed with status 204''), [Download ''u''])"
    by code_simp
  ultimately show ?thesis by simp
qed

text \<open>
  C8. The policy stops the client after 10 requests, so at most 9 redirects are followed.
  A resource behind at most 9 redirects that is served with status 200 hashes to the
  digest of its bytes. When the first ten answers are all redirects, the call fails with
  the policy's error after those ten requests; it sends no eleventh request and does not
  start over.
\<close>

theorem CalculateInstallerHash_redirects:
  assumes "NewRequest w ''GET'' url = None"
      and "after_redirects w tr url n = Some (final, trn)"
  shows "(n \<le> 9 \<and> fetch w trn final = HopResponse 200 (Inr bytes) \<longrightarrow>
            CalculateInstallerHash w tr url
              = (Inr (CalculateHashFromBytes bytes), trn @ [Download final]))
       \<and> (n = 10 \<longrightarrow>
            CalculateInstallerHash w tr url
              = (Inl (Wrapf ''failed to download installer: ''
                        (url_Error final (Errorf ''too many redirects''))), trn)
            \<and> length trn = length tr + 10)"
  using assms clientDo_final [OF assms(2)] clientDo_too_many [of w tr url final trn]
    after_redirects_length [OF assms(2)]
  by (auto simp: CalculateInstallerHash_def CalculateHashFromBytes_def)

lemma nine_hops:
  "after_redirects (test_world (redirecting 9 200) (fork_api 200 202)) [] ''start'' 9
     = Some (''hop9'', map Download [''start'', ''hop1'', ''hop2'', ''hop3'', ''hop4'', ''hop5'',
               ''hop6'', ''hop7'', ''hop8''])"
  by code_simp

lemma ten_hops:
  "after_redirects (test_world (redirecting 10 200) (fork_api 200 202)) [] ''start'' 10
     = Some (''hop10'', map Download [''start'', ''hop1'', ''hop2'', ''hop3'', ''hop4'', ''hop5'',
               ''hop6'', ''hop7'', ''hop8'', ''hop9''])"
  by code_simp

theorem CalculateInstallerHash_redirects_witness:
  "CalculateInstallerHash (test_world (redirecting 9 200) (fork_api 200 202)) [] ''start''
     = (Inr (CalculateHashFromBytes []),
        map Download [''start'', ''hop1'', ''hop2'', ''hop3'', ''hop4'', ''hop5'', ''hop6'',
                      ''hop7'', ''hop8'', ''hop9''])
   \<and> CalculateInstallerHash (test_world (redirecting 10 200) (fork_api 200 202)) [] ''start''
     = (Inl (Wrapf ''failed to download installer: ''
               (url_Error ''hop10'' (Errorf ''too many redirects''))),
        map Download [''start'', ''hop1'', ''hop2'', ''hop3'', ''hop4'', ''hop5'', ''hop6'',
                      ''hop7'', ''hop8'', ''hop9''])"
proof -
  let ?w = "\<lambda>n. test_world (redirecting n 200) (fork_api 200 202)"
  have a: "NewRequest (?w n) ''GET'' ''start'' = None" for n
    by (simp add: test_world_def)
  have f: "fetch (?w 9) (map Download [''start'', ''hop1'', ''hop2'', ''hop3'', ''hop4'', ''hop5'',
               ''hop6'', ''hop7'', ''hop8'']) ''hop9'' = HopResponse 200 (Inr [])"
    by (simp add: test_world_def redirecting_def)
  from CalculateInstallerHash_redirects [OF a nine_hops, of "[]"] f
       CalculateInstallerHash_redirects [OF a ten_hops, of "[]"]
  show ?thesis by simp
qed

text \<open>
  The claim as stated fails for a resource behind exactly 10 redirects: the eleventh
  request would be answered with status 200, and the call fails before sending it.
\<close>

theorem CalculateInstallerHash_ten_redirects_counterexample:
  "after_redirects (test_world (redirecting 10 200) (fork_api 200 202)) [] ''start'' 10
     = Some (''hop10'', map Download [''start'', ''hop1'', ''hop2'', ''hop3'', ''hop4'', ''hop5'',
               ''hop6'', ''hop7'', ''hop8'', ''hop9''])
   \<and> fetch (test_world (redirecting 10 200) (fork_api 200 202))
        (map Download [''start'', ''hop1'', ''hop2'', ''hop3'', ''hop4'', ''hop5'',
               ''hop6'', ''hop7'', ''hop8'', ''hop9'']) ''hop10'' = HopResponse 200 (Inr [])
   \<and> fst (CalculateInstallerHash (test_world (redirecting 10 200) (fork_api 200 202)) [] ''start'')
       = Inl (Wrapf ''failed to download installer: ''
               (url_Error ''hop10'' (Errorf ''too many redirects'')))"
proof -
  have "fetch (test_world (redirecting 10 200) (fork_api 200 202))
        (map Download [''start'', ''hop1'', ''hop2'', ''hop3'', ''hop4'', ''hop5'',
               ''hop6'', ''hop7'', ''hop8'', ''hop9'']) ''hop10'' = HopResponse 200 (Inr [])"
    by (simp add: test_world_def redirecting_def)
  moreover have "fst (CalculateInstallerHash (test_world (redirecting 10 200) (fork_api 200 202))
                    [] ''start'')
       = Inl (Wrapf ''failed to download installer: ''
               (url_Error ''hop10'' (Errorf ''too many redirects'')))"
    by code_simp
  ultimately show ?thesis using ten_hops by simp
qed

section \<open>Properties of the repository client\<close>

lemma forkExists_cases:
  "forkExists g w tr owner =
     (case NewRequest w ''GET'' (URL (probe_request g owner)) of
        Some err \<Rightarrow> (Inl err, tr)
      | None \<Rightarrow>
          (case http_do w tr (probe_request g owner) of
             Inl err \<Rightarrow> (Inl err, tr @ [Api (probe_request g owner)])
           | Inr resp \<Rightarrow> (Inr (StatusCode resp = 200), tr @ [Api (probe_request g owner)])))"
  by (simp add: forkExists_def doRequestRaw_def probe_request_def with_headers_def mk_request_def
        Let_def split: option.splits sum.splits)

lemma createFork_cases:
  "createFork g w tr =
     (case http_do w tr (fork_request g) of
        Inl err \<Rightarrow> (Some err, tr @ [Api (fork_request g)])
      | Inr resp \<Rightarrow>
          (if StatusCode resp = 200 \<or> StatusCode resp = 202 then (None, tr @ [Api (fork_request g)])
           else (Some (Errorf (''failed to create fork: '' @ Body resp)),
                 tr @ [Api (fork_request g)])))"
  by (auto simp: createFork_def doRequestRaw_def fork_request_def Let_def split: sum.splits)

text \<open>
  C5. With a fork owner configured, \<open>EnsureFork\<close> returns it and sends nothing.
  Otherwise it resolves the identity, and a failure there fails the call. It then probes
  the fork: a transport error fails the call; status 200 means the fork exists, and the
  identity is returned after that one request; any other status (404, and the rest of the
  2xx range too) means it does not. Then the fork is requested: status 200 or 202 is
  success, followed by a pause of five seconds and the identity; a transport error or
  another status fails the call.
\<close>

theorem EnsureFork_behaviour:
  "(forkOwner g \<noteq> [] \<longrightarrow> EnsureFork g w tr = (Inr (forkOwner g), tr))
   \<and> (forkOwner g = [] \<longrightarrow>
        (\<forall>err tr1. getCurrentUser g w tr = (Inl err, tr1) \<longrightarrow>
            EnsureFork g w tr = (Inl (Wrapf ''failed to get current user: '' err), tr1))
      \<and> (\<forall>user tr1 err. getCurrentUser g w tr = (Inr user, tr1)
              \<and> NewRequest w ''GET'' (URL (probe_request g user)) = Some err \<longrightarrow>
            EnsureFork g w tr = (Inl (Wrapf ''failed to check fork: '' err), tr1))
      \<and> (\<forall>user tr1. getCurrentUser g w tr = (Inr user, tr1)
              \<and> NewRequest w ''GET'' (URL (probe_request g user)) = None \<longrightarrow>
            (\<forall>err. http_do w tr1 (probe_request g user) = Inl err \<longrightarrow>
                EnsureFork g w tr
                  = (Inl (Wrapf ''failed to check fork: '' err), tr1 @ [Api (probe_request g user)]))
          \<and> (\<forall>probe. http_do w tr1 (probe_request g user) = Inr probe \<longrightarrow>
                (StatusCode probe = 200 \<longrightarrow>
                   EnsureFork g w tr = (Inr user, tr1 @ [Api (probe_request g user)]))
              \<and> (StatusCode probe \<noteq> 200 \<longrightarrow>
                   (\<forall>err. http_do w (tr1 @ [Api (probe_request g user)]) (fork_request g) = Inl err \<longrightarrow>
                       EnsureFork g w tr
                         = (Inl (Wrapf ''failed to create fork: '' err),
                            tr1 @ [Api (probe_request g user), Api (fork_request g)]))
                 \<and> (\<forall>created.
                       http_do w (tr1 @ [Api (probe_request g user)]) (fork_request g) = Inr created \<longrightarrow>
                       (StatusCode created = 200 \<or> StatusCode created = 202 \<longrightarrow>
                          EnsureFork g w tr
                            = (Inr user,
                               tr1 @ [Api (probe_request g user), Api (fork_request g), Sleep 5]))
                     \<and> (StatusCode created \<noteq> 200 \<and> StatusCode created \<noteq> 202 \<longrightarrow>
                          (\<exists>err. EnsureFork g w tr
                             = (Inl err,
                                tr1 @ [Api (probe_request g user), Api (fork_request g)]))))))))"
  by (auto simp: EnsureFork_def forkExists_cases createFork_cases)

lemma test_identity:
  "getCurrentUser (NewGitHubClient ''test-token'' []) (test_world no_server (fork_api p c)) []
     = (Inr ''octocat'',
        [Api (with_headers (NewGitHubClient ''test-token'' [])
                (mk_request ''GET'' ''https://api.github.com/user'' None))])"
  by (simp add: getCurrentUser_def doRequest_def doRequestRaw_def test_world_def fork_api_def
        with_headers_def mk_request_def githubAPIBase_def Let_def)

lemma test_probe:
  "http_do (test_world no_server (fork_api p c)) tr
      (probe_request (NewGitHubClient ''test-token'' []) ''octocat'')
     = Inr \<lparr>StatusCode = p, Body = []\<rparr>"
  by (simp add: test_world_def fork_api_def probe_request_def with_headers_def mk_request_def
        githubAPIBase_def wingetPkgsRepo_def)

lemma test_create:
  "http_do (test_world no_server (fork_api p c)) tr
      (fork_request (NewGitHubClient ''test-token'' []))
     = Inr \<lparr>StatusCode = c, Body = ''no''\<rparr>"
  by (simp add: test_world_def fork_api_def fork_request_def with_headers_def mk_request_def
        githubAPIBase_def wingetPkgsRepo_def wingetPkgsOwner_def)

text \<open>
  The witness is scenario D of the specification (404 on the probe, 202 on the creation),
  and \<^verbatim>\<open>TestGitHubClientEnsureForkWithOwner\<close>.
\<close>

theorem EnsureFork_behaviour_witness:
  "EnsureFork (NewGitHubClient ''test-token'' []) (test_world no_server (fork_api 404 202)) []
     = (Inr ''octocat'',
        [Api (with_headers (NewGitHubClient ''test-token'' [])
                (mk_request ''GET'' ''https://api.github.com/user'' None)),
         Api (probe_request (NewGitHubClient ''test-token'' []) ''octocat''),
         Api (fork_request (NewGitHubClient ''test-token'' [])),
         Sleep 5])
   \<and> EnsureFork (NewGitHubClient ''test-token'' ''specified-owner'')
        (test_world no_server (fork_api 404 202)) []
     = (Inr ''specified-owner'', [])"
proof -
  let ?g = "NewGitHubClient ''test-token'' []"
  let ?w = "test_world no_server (fork_api 404 202)"
  have o: "forkOwner ?g = []"
          "forkOwner (NewGitHubClient ''test-token'' ''specified-owner'') = ''specified-owner''"
    by (simp_all add: NewGitHubClient_def)
  have n: "NewRequest ?w ''GET'' (URL (probe_request ?g ''octocat'')) = None"
    by (simp add: test_world_def)
  from EnsureFork_behaviour [of ?g ?w "[]"] o(1) n
    test_identity [of 404 202] test_probe [of 404 202] test_create [of 404 202]
  have "EnsureFork ?g ?w []
     = (Inr ''octocat'',
        [Api (with_headers ?g (mk_request ''GET'' ''https://api.github.com/user'' None)),
         Api (probe_request ?g ''octocat''), Api (fork_request ?g), Sleep 5])"
    by simp
  moreover from EnsureFork_behaviour
      [of "NewGitHubClient ''test-token'' ''specified-owner''" ?w "[]"] o(2)
  have "EnsureFork (NewGitHubClient ''test-token'' ''specified-owner'') ?w []
     = (Inr ''specified-owner'', [])"
    by simp
  ultimately show ?thesis by simp
qed

text \<open>
  The claim as stated fails for a probe answered with 204, a status of the 2xx range: the
  fork is taken to be missing, its creation is requested, and when that fails (status 500
  here) the call fails.
\<close>

theorem EnsureFork_probe_204_counterexample:
  "http_do (test_world no_server (fork_api 204 500))
      [Api (with_headers (NewGitHubClient ''test-token'' [])
                (mk_request ''GET'' ''https://api.github.com/user'' None))]
      (probe_request (NewGitHubClient ''test-token'' []) ''octocat'')
     = Inr \<lparr>StatusCode = 204, Body = []\<rparr>
   \<and> (200::nat) \<le> 204 \<and> (204::nat) < 300
   \<and> EnsureFork (NewGitHubClient ''test-token'' []) (test_world no_server (fork_api 204 500)) []
     = (Inl (Wrapf ''failed to create fork: '' (Errorf ''failed to create fork: no'')),
        [Api (with_headers (NewGitHubClient ''test-token'' [])
                (mk_request ''GET'' ''https://api.github.com/user'' None)),
         Api (probe_request (NewGitHubClient ''test-token'' []) ''octocat''),
         Api (fork_request (NewGitHubClient ''test-token'' []))])"
proof -
  have "EnsureFork (NewGitHubClient ''test-token'' []) (test_world no_server (fork_api 204 500)) []
     = (Inl (Wrapf ''failed to create fork: '' (Errorf ''failed to create fork: no'')),
        [Api (with_headers (NewGitHubClient ''test-token'' [])
                (mk_request ''GET'' ''https://api.github.com/user'' None)),
         Api (probe_request (NewGitHubClient ''test-token'' []) ''octocat''),
         Api (fork_request (NewGitHubClient ''test-token'' []))])"
    using test_identity [of 204 500] test_probe [of 204 500] test_create [of 204 500]
    by (simp add: EnsureFork_def forkExists_cases createFork_cases NewGitHubClient_def
          test_world_def)
  then show ?thesis using test_probe [of 204 500] by simp
qed

section \<open>Properties of the plugin\<close>

lemma hashInstallers_dry:
  "DryRun cfg \<Longrightarrow>
   \<exists>new. hashInstallers w cfg v tr i ics acc = (Inr (acc @ new), tr)
        \<and> map InstallerSha256 new = replicate (length ics) placeholder_hash"
proof (induction ics arbitrary: i acc)
  case Nil
  then show ?case by simp
next
  case (Cons ic ics)
  let ?inst = "\<lparr>Architecture = ic_Architecture ic, InstallerType = ic_Type ic,
      InstallerURL = renderTemplate (ic_URL ic) [(''Version'', v)],
      InstallerSha256 = placeholder_hash, Scope = ic_Scope ic,
      InstallerSwitches = (if length (ic_Switches ic) > 0 then ic_Switches ic else []),
      ProductCode = ic_ProductCode ic\<rparr>"
  from Cons.IH [OF Cons.prems, of "Suc i" "acc @ [?inst]"]
  obtain new where
    new: "hashInstallers w cfg v tr (Suc i) ics (acc @ [?inst]) = (Inr ((acc @ [?inst]) @ new), tr)"
         "map InstallerSha256 new = replicate (length ics) placeholder_hash"
    by blast
  have "hashInstallers w cfg v tr i (ic # ics) acc = (Inr (acc @ (?inst # new)), tr)"
    using Cons.prems new(1) by (simp add: Let_def)
  moreover have "map InstallerSha256 (?inst # new)
                   = replicate (length (ic # ics)) placeholder_hash"
    using new(2) by simp
  ultimately show ?case by blast
qed

text \<open>
  C2. In a dry run \<open>executePostPublish\<close> leaves no event: no download and no request to
  the API. Every installer gets the placeholder digest of 64 zeros, and when
  \<open>GenerateManifests\<close> succeeds the result is the success response with the message
  \<^verbatim>\<open>[DRY-RUN] Would create PR for <package id> version <version>\<close>.
\<close>

theorem executePostPublish_dry_run:
  assumes "DryRun cfg"
  shows "\<exists>installers.
           hashInstallers w cfg (rc_Version rc) tr 0 (Installers cfg) [] = (Inr installers, tr)
         \<and> map InstallerSha256 installers
             = replicate (length (Installers cfg)) placeholder_hash
         \<and> placeholder_hash = replicate 64 CHR ''0''
         \<and> snd (executePostPublish w tr rc cfg) = tr
         \<and> (\<forall>ms. GenerateManifests cfg (rc_Version rc) installers = Return (Inr ms) \<longrightarrow>
               fst (executePostPublish w tr rc cfg)
                 = Return (\<lparr>Success = True,
                            Message = ''[DRY-RUN] Would create PR for '' @ PackageID cfg
                                        @ '' version '' @ rc_Version rc\<rparr>, None))"
proof -
  from hashInstallers_dry [OF assms, of w "rc_Version rc" tr 0 "Installers cfg" "[]"]
  obtain installers where
    h: "hashInstallers w cfg (rc_Version rc) tr 0 (Installers cfg) [] = (Inr installers, tr)"
       "map InstallerSha256 installers = replicate (length (Installers cfg)) placeholder_hash"
    by auto
  have "snd (executePostPublish w tr rc cfg) = tr"
    using h(1) assms
    by (simp add: executePostPublish_def Let_def split: outcome.splits sum.splits)
  moreover have "\<forall>ms. GenerateManifests cfg (rc_Version rc) installers = Return (Inr ms) \<longrightarrow>
               fst (executePostPublish w tr rc cfg)
                 = Return (\<lparr>Success = True,
                            Message = ''[DRY-RUN] Would create PR for '' @ PackageID cfg
                                        @ '' version '' @ rc_Version rc\<rparr>, None)"
    using h(1) assms by (simp add: executePostPublish_def Let_def)
  moreover have "placeholder_hash = replicate 64 CHR ''0''"
    by code_simp
  ultimately show ?thesis using h by blast
qed

theorem executePostPublish_dry_run_witness:
  "DryRun (test_config\<lparr>DryRun := True\<rparr>)
   \<and> executePostPublish (test_world no_server (fork_api 404 202)) []
        \<lparr>rc_Version = ''1.0.0''\<rparr> (test_config\<lparr>DryRun := True\<rparr>)
     = (Return (\<lparr>Success = True,
                 Message = ''[DRY-RUN] Would create PR for MyOrg.MyApp version 1.0.0''\<rparr>, None),
        [])"
proof -
  let ?cfg = "test_config\<lparr>DryRun := True\<rparr>"
  let ?w = "test_world no_server (fork_api 404 202)"
  let ?rc = "\<lparr>rc_Version = ''1.0.0''\<rparr>"
  have d: "DryRun ?cfg" by simp
  from executePostPublish_dry_run [OF d, of ?w ?rc "[]"]
  obtain installers where
    t: "snd (executePostPublish ?w [] ?rc ?cfg) = []"
       "\<forall>ms. GenerateManifests ?cfg (rc_Version ?rc) installers = Return (Inr ms) \<longrightarrow>
               fst (executePostPublish ?w [] ?rc ?cfg)
                 = Return (\<lparr>Success = True,
                            Message = ''[DRY-RUN] Would create PR for '' @ PackageID ?cfg
                                        @ '' version '' @ rc_Version ?rc\<rparr>, None)"
    by blast
  obtain ms where "GenerateManifests ?cfg (rc_Version ?rc) installers = Return (Inr ms)"
    using GenerateManifests_test_config_dry by blast
  with t(2) have "fst (executePostPublish ?w [] ?rc ?cfg)
                 = Return (\<lparr>Success = True,
                            Message = ''[DRY-RUN] Would create PR for '' @ PackageID ?cfg
                                        @ '' version '' @ rc_Version ?rc\<rparr>, None)"
    by blast
  moreover have "PackageID ?cfg = ''MyOrg.MyApp''"
    by (simp add: test_config_def)
  ultimately show ?thesis using t(1) d by (simp add: prod_eq_iff)
qed

text \<open>
  C9. For a hook other than the post-publish hook, \<open>Execute\<close> returns the success
  response \<^verbatim>\<open>Hook <hook> not handled by winget plugin\<close> with a \<^verbatim>\<open>nil\<close> error, and leaves
  no event: nothing is hashed, generated or sent.
\<close>

theorem Execute_unhandled_hook:
  "Hook req \<noteq> HookPostPublish w \<Longrightarrow>
   Execute w tr req =
     (Return (\<lparr>Success = True,
               Message = ''Hook '' @ Hook req @ '' not handled by winget plugin''\<rparr>, None), tr)"
  by (simp add: Execute_def Let_def)

theorem Execute_unhandled_hook_witness:
  "Execute (test_world no_server (fork_api 404 500)) []
      \<lparr>Hook = ''PreVersion'', RawConfig = [], Context = \<lparr>rc_Version = ''1.0.0''\<rparr>,
       ReqDryRun = False\<rparr>
    = (Return (\<lparr>Success = True,
               Message = ''Hook PreVersion not handled by winget plugin''\<rparr>, None), [])"
  using Execute_unhandled_hook
    [of "\<lparr>Hook = ''PreVersion'', RawConfig = [], Context = \<lparr>rc_Version = ''1.0.0''\<rparr>,
         ReqDryRun = False\<rparr>" "test_world no_server (fork_api 404 500)" "[]"]
  by (simp add: test_world_def)

subsection \<open>The short description\<close>

lemma installerErrors_field:
  "(f, m) \<in> set (installerErrors i ics) \<Longrightarrow> take 11 f = ''installers[''"
  by (induction ics arbitrary: i) (auto split: if_splits)

lemma Validate_short_description_iff:
  "(\<exists>m. (''metadata.short_description'', m) \<in> set (Errors (fst (Validate w config))))
     \<longleftrightarrow> (ShortDescription (Metadata (parseConfig w config)) = []
          \<or> length (ShortDescription (Metadata (parseConfig w config))) > 256)"
  by (auto simp: Validate_def Let_def dest: installerErrors_field split: if_splits)

lemma Validate_short_description_message:
  "(''metadata.short_description'', m) \<in> set (Errors (fst (Validate w config))) \<Longrightarrow>
     m = (if ShortDescription (Metadata (parseConfig w config)) = []
          then ''Short description is required''
          else ''Short description must be <= 256 characters'')"
  by (auto simp: Validate_def Let_def dest: installerErrors_field split: if_splits)

lemma parse_short_description:
  "ShortDescription (Metadata (parseConfig w
      [(''metadata'', AMap [(''short_description'', AString sd)])])) = sd"
  by (simp add: parseConfig_def parseMetadata_def str_or_def)

lemma length_e_acute: "length (concat (replicate 129 [CHR 0xC3, CHR 0xA9])) = 258"
  by (simp add: length_concat sum_list_replicate)

lemma RuneCount_e_acute: "RuneCount (concat (replicate n [CHR 0xC3, CHR 0xA9])) = n"
  by (induction n) (simp_all add: RuneCount_def is_continuation_def)

text \<open>
  C10. The limit is checked with \<^verbatim>\<open>len\<close>, which counts bytes. A short description of
  129 letters e with an acute accent (C3 A9 in UTF-8) has 129 characters and 258 bytes,
  and \<open>Validate\<close> reports it as longer than 256 characters.
\<close>

theorem Validate_counts_bytes:
  "let sd = concat (replicate 129 [CHR 0xC3, CHR 0xA9]);
       config = [(''metadata'', AMap [(''short_description'', AString sd)])]
   in RuneCount sd = 129 \<and> length sd = 258
      \<and> (''metadata.short_description'', ''Short description must be <= 256 characters'')
           \<in> set (Errors (fst (Validate w config)))"
proof -
  let ?sd = "concat (replicate 129 [CHR 0xC3, CHR 0xA9])"
  let ?config = "[(''metadata'', AMap [(''short_description'', AString ?sd)])]"
  have l: "length ?sd = 258" by (rule length_e_acute)
  have ne: "?sd \<noteq> []" using l by auto
  have "\<exists>m. (''metadata.short_description'', m) \<in> set (Errors (fst (Validate w ?config)))"
    unfolding Validate_short_description_iff parse_short_description using l by simp
  then obtain m where
    m: "(''metadata.short_description'', m) \<in> set (Errors (fst (Validate w ?config)))"
    by blast
  from Validate_short_description_message [OF m] ne
  have "m = ''Short description must be <= 256 characters''"
    unfolding parse_short_description by simp
  with m l RuneCount_e_acute [of 129] show ?thesis by (simp add: Let_def)
qed

text \<open>
  Beside C10: an error on \<^verbatim>\<open>metadata.short_description\<close> is reported exactly when the
  configured short description is empty (as required) or longer than 256 bytes (as
  exceeding the limit); from 1 to 256 bytes there is none.
\<close>

theorem Validate_short_description_bytes:
  "((\<exists>m. (''metadata.short_description'', m) \<in> set (Errors (fst (Validate w config))))
      \<longleftrightarrow> (ShortDescription (Metadata (parseConfig w config)) = []
           \<or> length (ShortDescription (Metadata (parseConfig w config))) > 256))
   \<and> (\<forall>m. (''metadata.short_description'', m) \<in> set (Errors (fst (Validate w config))) \<longrightarrow>
          m = (if ShortDescription (Metadata (parseConfig w config)) = []
               then ''Short description is required''
               else ''Short description must be <= 256 characters''))"
  using Validate_short_description_iff [of w config]
        Validate_short_description_message [of _ w config]
  by blast

theorem Validate_short_description_bytes_witness:
  "(''metadata.short_description'', ''Short description is required'')
      \<in> set (Errors (fst (Validate (test_world no_server (fork_api 404 202)) [])))
   \<and> (''metadata.short_description'', ''Short description is required'')
      \<notin> set (Errors (fst (Validate (test_world no_server (fork_api 404 202))
            [(''metadata'', AMap [(''short_description'', AString ''A useful application'')])])))"
proof -
  let ?w = "test_world no_server (fork_api 404 202)"
  have e: "ShortDescription (Metadata (parseConfig ?w [])) = []"
    by (simp add: parseConfig_def parseMetadata_def)
  from Validate_short_description_bytes [of ?w "[]"] e
  have "(''metadata.short_description'', ''Short description is required'')
      \<in> set (Errors (fst (Validate ?w [])))"
    by auto
  moreover
  from Validate_short_description_bytes
         [of ?w "[(''metadata'', AMap [(''short_description'', AString ''A useful application'')])]"]
  have "(''metadata.short_description'', ''Short description is required'')
      \<notin> set (Errors (fst (Validate ?w
            [(''metadata'', AMap [(''short_description'', AString ''A useful application'')])])))"
    unfolding parse_short_description by auto
  ultimately show ?thesis by simp
qed

end
